theory Spec2Isabelle
  imports Complex_Main
begin

section \<open>JavaScript values\<close>

text \<open>
  The client code (\<^verbatim>\<open>utils/demoData.js\<close>, \<^verbatim>\<open>utils/api.js\<close>,
  \<^verbatim>\<open>hooks/useComputation.js\<close>) works on plain JavaScript data: the request bodies
  it builds, the responses it decodes and the pre-computed demo responses are all
  JSON-like values. A number is modelled by the real it denotes (the literals of the
  demo data are decimal literals, and the code performs no arithmetic on them), with
  \<open>NaN\<close> and the two infinities as constructors of their own. An object is the list of
  its own string-keyed properties, in source order and with distinct keys; its prototype
  is \<^verbatim>\<open>Object.prototype\<close>. \<open>JBuiltin\<close> names an object of the engine (the members of
  \<^verbatim>\<open>Object.prototype\<close>), and \<open>JBoxed v\<close> is the wrapper object \<^verbatim>\<open>Object(v)\<close> of a
  primitive value \<open>v\<close>.
\<close>

datatype jsval =
    JUndefined
  | JNull
  | JBool bool
  | JNum real
  | JNaN
  | JPosInf
  | JNegInf
  | JStr string
  | JArr "jsval list"
  | JObj "(string \<times> jsval) list"
  | JBuiltin string
  | JBoxed jsval

text \<open>An error object: its \<^verbatim>\<open>name\<close> and its \<^verbatim>\<open>message\<close>.\<close>

datatype js_error = JsError (err_name: string) (err_message: string)

text \<open>\<^verbatim>\<open>ToBoolean\<close>: what \<^verbatim>\<open>!v\<close>, \<^verbatim>\<open>v || w\<close> and \<^verbatim>\<open>if (v)\<close> test.\<close>

fun truthy :: "jsval \<Rightarrow> bool" where
  "truthy JUndefined = False"
| "truthy JNull = False"
| "truthy (JBool b) = b"
| "truthy (JNum r) = (r \<noteq> 0)"
| "truthy JNaN = False"
| "truthy JPosInf = True"
| "truthy JNegInf = True"
| "truthy (JStr s) = (s \<noteq> [])"
| "truthy (JArr xs) = True"
| "truthy (JObj ps) = True"
| "truthy (JBuiltin n) = True"
| "truthy (JBoxed v) = True"

text \<open>\<^verbatim>\<open>v || w\<close>\<close>

definition js_or :: "jsval \<Rightarrow> jsval \<Rightarrow> jsval" where
  "js_or v w = (if truthy v then v else w)"

fun nullish :: "jsval \<Rightarrow> bool" where
  "nullish JUndefined = True"
| "nullish JNull = True"
| "nullish v = False"

text \<open>
  The properties every ordinary object inherits from \<^verbatim>\<open>Object.prototype\<close>: eleven
  functions, and the accessor \<^verbatim>\<open>__proto__\<close>, which yields the prototype itself.
\<close>

definition Object_prototype :: "(string \<times> jsval) list" where
  "Object_prototype =
    [(''constructor'', JBuiltin ''Object''),
     (''__defineGetter__'', JBuiltin ''Object.prototype.__defineGetter__''),
     (''__defineSetter__'', JBuiltin ''Object.prototype.__defineSetter__''),
     (''hasOwnProperty'', JBuiltin ''Object.prototype.hasOwnProperty''),
     (''__lookupGetter__'', JBuiltin ''Object.prototype.__lookupGetter__''),
     (''__lookupSetter__'', JBuiltin ''Object.prototype.__lookupSetter__''),
     (''isPrototypeOf'', JBuiltin ''Object.prototype.isPrototypeOf''),
     (''propertyIsEnumerable'', JBuiltin ''Object.prototype.propertyIsEnumerable''),
     (''toString'', JBuiltin ''Object.prototype.toString''),
     (''valueOf'', JBuiltin ''Object.prototype.valueOf''),
     (''__proto__'', JBuiltin ''Object.prototype''),
     (''toLocaleString'', JBuiltin ''Object.prototype.toLocaleString'')]"

text \<open>
  \<^verbatim>\<open>o[k]\<close> on an ordinary object: the own property if there is one, else the
  inherited one, else \<^verbatim>\<open>undefined\<close>.
\<close>

definition obj_member :: "(string \<times> jsval) list \<Rightarrow> string \<Rightarrow> jsval" where
  "obj_member ps k =
     (case map_of ps k of
        Some v \<Rightarrow> v
      | None \<Rightarrow> (case map_of Object_prototype k of Some v \<Rightarrow> v | None \<Rightarrow> JUndefined))"

text \<open>
  \<^verbatim>\<open>v.k\<close> for a value \<open>v\<close> that is neither \<^verbatim>\<open>null\<close> nor \<^verbatim>\<open>undefined\<close>. On an
  object it is \<open>obj_member\<close>, for every key. On the other kinds of value the code reads
  only the names \<^verbatim>\<open>operation\<close>, \<^verbatim>\<open>success\<close>, \<^verbatim>\<open>error\<close>, \<^verbatim>\<open>result\<close>,
  \<^verbatim>\<open>visualization\<close> and the names of the form state, none of which a built-in
  prototype defines: there the read yields \<^verbatim>\<open>undefined\<close>.
\<close>

fun get_prop :: "jsval \<Rightarrow> string \<Rightarrow> jsval" where
  "get_prop (JObj ps) k = obj_member ps k"
| "get_prop v k = JUndefined"

text \<open>\<^verbatim>\<open>v?.k\<close>\<close>

definition opt_prop :: "jsval \<Rightarrow> string \<Rightarrow> jsval" where
  "opt_prop v k = (if nullish v then JUndefined else get_prop v k)"

text \<open>
  \<^verbatim>\<open>v.k\<close>: a \<^verbatim>\<open>TypeError\<close> when \<open>v\<close> is \<^verbatim>\<open>null\<close> or \<^verbatim>\<open>undefined\<close> (the
  message is the engine's; V8's wording is used).
\<close>

definition read_prop :: "jsval \<Rightarrow> string \<Rightarrow> js_error + jsval" where
  "read_prop v k =
     (if v = JUndefined then
        Inl (JsError ''TypeError''
               (''Cannot read properties of undefined (reading '' @ [CHR 0x27] @ k @ [CHR 0x27] @ '')''))
      else if v = JNull then
        Inl (JsError ''TypeError''
               (''Cannot read properties of null (reading '' @ [CHR 0x27] @ k @ [CHR 0x27] @ '')''))
      else Inr (get_prop v k))"

text \<open>
  \<^verbatim>\<open>ToString\<close>, which \<^verbatim>\<open>new Error(v)\<close> applies to its argument and \<^verbatim>\<open>o[v]\<close> to
  its key. On strings, booleans, \<^verbatim>\<open>null\<close>, \<^verbatim>\<open>undefined\<close>, \<^verbatim>\<open>NaN\<close> and the
  infinities it is written out. On finite numbers, arrays, objects and functions it is
  the engine's algorithm (number formatting, \<^verbatim>\<open>join\<close>, \<^verbatim>\<open>ToPrimitive\<close>, which can
  throw a \<^verbatim>\<open>TypeError\<close>): that part is a parameter \<open>rt\<close> of the model, about which
  nothing is assumed.
\<close>

type_synonym coercion = "jsval \<Rightarrow> js_error + string"

fun ToString :: "coercion \<Rightarrow> jsval \<Rightarrow> js_error + string" where
  "ToString rt (JStr s) = Inr s"
| "ToString rt JUndefined = Inr ''undefined''"
| "ToString rt JNull = Inr ''null''"
| "ToString rt (JBool b) = Inr (if b then ''true'' else ''false'')"
| "ToString rt JNaN = Inr ''NaN''"
| "ToString rt JPosInf = Inr ''Infinity''"
| "ToString rt JNegInf = Inr ''-Infinity''"
| "ToString rt v = rt v"

text \<open>
  \<^verbatim>\<open>throw new Error(v)\<close>: the error that reaches the caller. It is the new
  \<^verbatim>\<open>Error\<close>, whose message is \<^verbatim>\<open>ToString(v)\<close>, unless that conversion throws first.
\<close>

definition throw_new_Error :: "coercion \<Rightarrow> jsval \<Rightarrow> js_error" where
  "throw_new_Error rt v =
     (if v = JUndefined then JsError ''Error'' ''''
      else (case ToString rt v of Inl e \<Rightarrow> e | Inr s \<Rightarrow> JsError ''Error'' s))"

text \<open>A backslash, for the LaTeX strings of the demo data.\<close>

definition bs :: string where
  "bs = [CHR 0x5C]"

section \<open>The pre-computed demo responses (\<^verbatim>\<open>utils/demoData.js\<close>)\<close>

text \<open>
  The module-level constants of \<^verbatim>\<open>demoData.js\<close>, property by property. Where the
  source computes an array (\<^verbatim>\<open>Array.from\<close>, \<^verbatim>\<open>map\<close>, a loop) the model computes
  the list; \<^verbatim>\<open>Math.cos\<close>, \<^verbatim>\<open>Math.sin\<close> and \<^verbatim>\<open>Math.PI\<close> are the real \<open>cos\<close>,
  \<open>sin\<close> and \<open>pi\<close>.
\<close>

definition DEMO_1D :: jsval where
  "DEMO_1D = JObj
    [(''success'', JBool True),
     (''integrand'', JStr ''x**2''),
     (''integrand_latex'', JStr ''x^{2}''),
     (''bounds'', JObj [(''lower'', JStr ''0''), (''upper'', JStr ''1'')]),
     (''result'', JObj
        [(''symbolic'', JStr ''1/3''),
         (''symbolic_latex'', JStr (bs @ ''frac{1}{3}'')),
         (''numerical'', JNum 0.333333),
         (''error'', JNum (3.7 / 10 ^ 15))]),
     (''visualization'', JObj
        [(''curve'', JObj
            [(''x'', JArr (map (\<lambda>i. JNum (real i / 199)) [0..<200])),
             (''y'', JArr (map (\<lambda>i. JNum ((real i / 199) ^ 2)) [0..<200]))]),
         (''rectangles'', JArr (map (\<lambda>i.
              let x = real i / 20; mid = x + 0.025
              in JObj [(''x'', JNum x), (''width'', JNum 0.05), (''height'', JNum (mid * mid))])
            [0..<20])),
         (''bounds'', JObj [(''a'', JNum 0), (''b'', JNum 1)])])]"

definition make2DSurface :: "nat \<Rightarrow> jsval" where
  "make2DSurface n =
     (let vals = map (\<lambda>i. real i / (real n - 1)) [0..<n];
          zRows = map (\<lambda>y. JArr (map (\<lambda>x. JNum (x * x + y * y)) vals)) vals
      in JObj
        [(''x'', JArr (map (\<lambda>x. JArr (map (\<lambda>_. JNum x) vals)) vals)),
         (''y'', JArr (map (\<lambda>_. JArr (map JNum vals)) vals)),
         (''z'', JArr zRows)])"

definition DEMO_2D :: jsval where
  "DEMO_2D = JObj
    [(''success'', JBool True),
     (''integrand'', JStr ''x**2 + y**2''),
     (''integrand_latex'', JStr ''x^{2} + y^{2}''),
     (''region'', JObj
        [(''type'', JStr ''rectangle''), (''x_min'', JNum 0), (''x_max'', JNum 1),
         (''y_min'', JNum 0), (''y_max'', JNum 1)]),
     (''result'', JObj
        [(''symbolic'', JStr ''2/3''),
         (''symbolic_latex'', JStr (bs @ ''frac{2}{3}'')),
         (''numerical'', JNum 0.666667),
         (''error'', JNum (7.4 / 10 ^ 15))]),
     (''visualization'', JObj
        [(''surface'', make2DSurface 30),
         (''boundary'', JObj
            [(''x'', JArr [JNum 0, JNum 1, JNum 1, JNum 0, JNum 0]),
             (''y'', JArr [JNum 0, JNum 0, JNum 1, JNum 1, JNum 0])]),
         (''region_type'', JStr ''rectangle'')])]"

definition DEMO_3D :: jsval where
  "DEMO_3D = JObj
    [(''success'', JBool True),
     (''integrand'', JStr ''1''),
     (''integrand_latex'', JStr ''1''),
     (''region'', JObj
        [(''type'', JStr ''box''), (''x_min'', JNum 0), (''x_max'', JNum 1),
         (''y_min'', JNum 0), (''y_max'', JNum 1), (''z_min'', JNum 0), (''z_max'', JNum 1)]),
     (''result'', JObj
        [(''symbolic'', JStr ''1''),
         (''symbolic_latex'', JStr ''1''),
         (''numerical'', JNum 1.0),
         (''error'', JNum 0.001)]),
     (''visualization'', JObj
        [(''points'', JArr [JArr [JNum 0.5, JNum 0.5, JNum 0.5]]),
         (''values'', JArr [JNum 1.0]),
         (''surfaces'', JArr
            [JObj
               [(''x'', JArr [JArr [JNum 0, JNum 1], JArr [JNum 0, JNum 1]]),
                (''y'', JArr [JArr [JNum 0, JNum 0], JArr [JNum 1, JNum 1]]),
                (''z'', JArr [JArr [JNum 1, JNum 1], JArr [JNum 1, JNum 1]]),
                (''name'', JStr ''front'')],
             JObj
               [(''x'', JArr [JArr [JNum 0, JNum 1], JArr [JNum 0, JNum 1]]),
                (''y'', JArr [JArr [JNum 0, JNum 0], JArr [JNum 1, JNum 1]]),
                (''z'', JArr [JArr [JNum 0, JNum 0], JArr [JNum 0, JNum 0]]),
                (''name'', JStr ''back'')]]),
         (''region_type'', JStr ''box'')])]"

definition DEMO_LINE_SCALAR :: jsval where
  "DEMO_LINE_SCALAR = JObj
    [(''success'', JBool True),
     (''integral_type'', JStr ''line_scalar''),
     (''integrand'', JStr ''1''),
     (''integrand_latex'', JStr ''1''),
     (''curve'', JObj [(''x'', JStr ''cos(t)''), (''y'', JStr ''sin(t)''), (''z'', JStr ''0'')]),
     (''result'', JObj
        [(''symbolic'', JStr ''2*pi''),
         (''symbolic_latex'', JStr (''2 '' @ bs @ ''pi'')),
         (''numerical'', JNum 6.283185),
         (''error'', JNum (1 / 10 ^ 12)),
         (''integrand_latex'', JStr ''1'')]),
     (''visualization'', JObj
        [(''curve'', JObj
            [(''x'', JArr (map (\<lambda>i. JNum (cos (2 * pi * real i / 99))) [0..<100])),
             (''y'', JArr (map (\<lambda>i. JNum (sin (2 * pi * real i / 99))) [0..<100])),
             (''z'', JArr (map (\<lambda>_. JNum 0) [0..<100]))]),
         (''arrows'', JArr []),
         (''t_range'', JArr [JNum 0, JNum 6.283185])])]"

definition DEMO_LINE_VECTOR :: jsval where
  "DEMO_LINE_VECTOR = JObj
    [(''success'', JBool True),
     (''integral_type'', JStr ''line_vector''),
     (''vector_field'', JObj [(''x'', JStr ''-y''), (''y'', JStr ''x''), (''z'', JStr ''0'')]),
     (''vector_field_latex'', JObj [(''x'', JStr ''- y''), (''y'', JStr ''x''), (''z'', JStr ''0'')]),
     (''curve'', JObj [(''x'', JStr ''cos(t)''), (''y'', JStr ''sin(t)''), (''z'', JStr ''0'')]),
     (''result'', JObj
        [(''symbolic'', JStr ''2*pi''),
         (''symbolic_latex'', JStr (''2 '' @ bs @ ''pi'')),
         (''numerical'', JNum 6.283185),
         (''error'', JNum (1 / 10 ^ 12)),
         (''integrand_latex'', JStr ''1'')]),
     (''visualization'', JObj
        [(''curve'', get_prop (get_prop DEMO_LINE_SCALAR ''visualization'') ''curve''),
         (''arrows'', JArr (map (\<lambda>i.
              let t = 2 * pi * real i / 10; cx = cos t; sy = sin t
              in JObj [(''origin'', JArr [JNum cx, JNum sy, JNum 0]),
                       (''direction'', JArr [JNum (- sy), JNum cx, JNum 0])])
            [0..<10])),
         (''t_range'', JArr [JNum 0, JNum 6.283185])])]"

definition makeHemisphere :: "nat \<Rightarrow> jsval" where
  "makeHemisphere n =
     (let uVals = map (\<lambda>i. (pi / 2) * real i / (real n - 1)) [0..<n];
          vVals = map (\<lambda>i. 2 * pi * real i / (real n - 1)) [0..<n]
      in JObj
        [(''x'', JArr (map (\<lambda>u. JArr (map (\<lambda>v. JNum (sin u * cos v)) vVals)) uVals)),
         (''y'', JArr (map (\<lambda>u. JArr (map (\<lambda>v. JNum (sin u * sin v)) vVals)) uVals)),
         (''z'', JArr (map (\<lambda>u. JArr (map (\<lambda>_. JNum (cos u)) vVals)) uVals))])"

definition DEMO_SURFACE_SCALAR :: jsval where
  "DEMO_SURFACE_SCALAR = JObj
    [(''success'', JBool True),
     (''integral_type'', JStr ''surface_scalar''),
     (''integrand'', JStr ''1''),
     (''integrand_latex'', JStr ''1''),
     (''surface'', JObj
        [(''x'', JStr ''sin(u)*cos(v)''), (''y'', JStr ''sin(u)*sin(v)''), (''z'', JStr ''cos(u)'')]),
     (''result'', JObj
        [(''symbolic'', JStr ''2*pi''),
         (''symbolic_latex'', JStr (''2 '' @ bs @ ''pi'')),
         (''numerical'', JNum 6.283185),
         (''error'', JNum (1 / 10 ^ 10)),
         (''normal_vector'', JArr
            [JStr ''sin(u)**2*cos(v)'', JStr ''sin(u)**2*sin(v)'', JStr ''sin(u)*cos(u)'']),
         (''dS_latex'', JStr (bs @ ''sin{'' @ bs @ ''left(u '' @ bs @ ''right)}''))]),
     (''visualization'', JObj
        [(''surface'', makeHemisphere 20),
         (''normals'', JArr
            [JObj [(''origin'', JArr [JNum 0, JNum 0, JNum 1]),
                   (''direction'', JArr [JNum 0, JNum 0, JNum 1])]]),
         (''field_arrows'', JArr []),
         (''u_range'', JArr [JNum 0, JNum (pi / 2)]),
         (''v_range'', JArr [JNum 0, JNum (2 * pi)])])]"

definition DEMO_FLUX :: jsval where
  "DEMO_FLUX = JObj
    [(''success'', JBool True),
     (''integral_type'', JStr ''flux''),
     (''vector_field'', JObj [(''x'', JStr ''x''), (''y'', JStr ''y''), (''z'', JStr ''z'')]),
     (''vector_field_latex'', JObj [(''x'', JStr ''x''), (''y'', JStr ''y''), (''z'', JStr ''z'')]),
     (''surface'', JObj
        [(''x'', JStr ''sin(u)*cos(v)''), (''y'', JStr ''sin(u)*sin(v)''), (''z'', JStr ''cos(u)'')]),
     (''result'', JObj
        [(''symbolic'', JStr ''2*pi''),
         (''symbolic_latex'', JStr (''2 '' @ bs @ ''pi'')),
         (''numerical'', JNum 6.283185),
         (''error'', JNum (1 / 10 ^ 10)),
         (''normal_vector'', JArr
            [JStr ''sin(u)**2*cos(v)'', JStr ''sin(u)**2*sin(v)'', JStr ''sin(u)*cos(u)'']),
         (''integrand_latex'', JStr (bs @ ''sin^{2}(u)''))]),
     (''visualization'', JObj
        [(''surface'', makeHemisphere 20),
         (''normals'', JArr
            [JObj [(''origin'', JArr [JNum 0, JNum 0, JNum 1]),
                   (''direction'', JArr [JNum 0, JNum 0, JNum 1])]]),
         (''field_arrows'', JArr
            [JObj [(''origin'', JArr [JNum 1, JNum 0, JNum 0]),
                   (''direction'', JArr [JNum 1, JNum 0, JNum 0])]]),
         (''u_range'', JArr [JNum 0, JNum (pi / 2)]),
         (''v_range'', JArr [JNum 0, JNum (2 * pi)])])]"

definition DEMO_VECTOR_OPS :: jsval where
  "DEMO_VECTOR_OPS = JObj
    [(''gradient'', JObj
        [(''success'', JBool True),
         (''operation'', JStr ''gradient''),
         (''input'', JStr ''x**2 + y**2 + z**2''),
         (''input_latex'', JStr ''x^{2} + y^{2} + z^{2}''),
         (''result'', JObj [(''x'', JStr ''2*x''), (''y'', JStr ''2*y''), (''z'', JStr ''2*z'')]),
         (''result_latex'', JObj [(''x'', JStr ''2 x''), (''y'', JStr ''2 y''), (''z'', JStr ''2 z'')])]),
     (''divergence'', JObj
        [(''success'', JBool True),
         (''operation'', JStr ''divergence''),
         (''input'', JObj [(''x'', JStr ''x''), (''y'', JStr ''y''), (''z'', JStr ''z'')]),
         (''result'', JStr ''3''),
         (''result_latex'', JStr ''3'')]),
     (''curl'', JObj
        [(''success'', JBool True),
         (''operation'', JStr ''curl''),
         (''input'', JObj [(''x'', JStr ''-y''), (''y'', JStr ''x''), (''z'', JStr ''0'')]),
         (''result'', JObj [(''x'', JStr ''0''), (''y'', JStr ''0''), (''z'', JStr ''2'')]),
         (''result_latex'', JObj [(''x'', JStr ''0''), (''y'', JStr ''0''), (''z'', JStr ''2'')])])]"

definition makeVectorArrows :: jsval where
  "makeVectorArrows = JArr (concat (map (\<lambda>xi. concat (map (\<lambda>yi. map (\<lambda>zi.
       JObj [(''origin'', JArr [JNum (real_of_int xi), JNum (real_of_int yi), JNum (real_of_int zi)]),
             (''direction'', JArr [JNum (- real_of_int yi), JNum (real_of_int xi), JNum 0])])
     [-2..2]) [-2..2])) [-2..2]))"

definition DEMO_VECTOR_FIELD :: jsval where
  "DEMO_VECTOR_FIELD = JObj
    [(''success'', JBool True),
     (''vector_field'', JObj [(''x'', JStr ''-y''), (''y'', JStr ''x''), (''z'', JStr ''0'')]),
     (''visualization'', JObj
        [(''arrows'', makeVectorArrows),
         (''region'', JObj
            [(''x_min'', JNum (- 2)), (''x_max'', JNum 2), (''y_min'', JNum (- 2)),
             (''y_max'', JNum 2), (''z_min'', JNum (- 2)), (''z_max'', JNum 2)])])]"

definition DEMO_GREENS :: jsval where
  "DEMO_GREENS = JObj
    [(''success'', JBool True),
     (''theorem'', JStr (''Green'' @ [CHR 0x27] @ ''s Theorem'')),
     (''P'', JStr ''-y/2''),
     (''Q'', JStr ''x/2''),
     (''line_integral'', JObj
        [(''symbolic'', JStr ''pi''), (''numerical'', JNum 3.141593), (''error'', JNum (1 / 10 ^ 12))]),
     (''curl_z'', JStr ''1''),
     (''curl_z_latex'', JStr ''1''),
     (''description'', JStr ''oint(P dx + Q dy) = iint(dQ/dx - dP/dy) dA''),
     (''visualization'', JObj
        [(''curve'', get_prop (get_prop DEMO_LINE_SCALAR ''visualization'') ''curve''),
         (''arrows'', JArr []),
         (''t_range'', JArr [JNum 0, JNum 6.283185])])]"

definition DEMO_STOKES :: jsval where
  "DEMO_STOKES = JObj
    [(''success'', JBool True),
     (''theorem'', JStr (''Stokes'' @ [CHR 0x27] @ '' Theorem'')),
     (''vector_field'', JObj [(''x'', JStr ''-y''), (''y'', JStr ''x''), (''z'', JStr ''z**2'')]),
     (''curl_F'', JObj [(''x'', JStr ''0''), (''y'', JStr ''0''), (''z'', JStr ''2'')]),
     (''line_integral'', JObj
        [(''symbolic'', JStr ''2*pi''), (''numerical'', JNum 6.283185), (''error'', JNum (1 / 10 ^ 12))]),
     (''surface_integral'', JObj
        [(''symbolic'', JStr ''2*pi''), (''numerical'', JNum 6.283185), (''error'', JNum (1 / 10 ^ 10))]),
     (''verification'', JObj
        [(''line'', JNum 6.283185), (''surface'', JNum 6.283185), (''difference'', JNum (1 / 10 ^ 10))]),
     (''description'', JStr ''oint F.dr = iint(nabla x F).dS''),
     (''visualization'', JObj
        [(''curve'', get_prop DEMO_LINE_SCALAR ''visualization''),
         (''surface'', get_prop DEMO_SURFACE_SCALAR ''visualization'')])]"

definition DEMO_DIVERGENCE :: jsval where
  "DEMO_DIVERGENCE = JObj
    [(''success'', JBool True),
     (''theorem'', JStr ''Divergence Theorem''),
     (''vector_field'', JObj [(''x'', JStr ''x''), (''y'', JStr ''y''), (''z'', JStr ''z'')]),
     (''divergence'', JStr ''3''),
     (''divergence_latex'', JStr ''3''),
     (''flux_integral'', JObj
        [(''symbolic'', JStr ''4*pi''), (''numerical'', JNum 12.566371), (''error'', JNum 0.01)]),
     (''volume_integral'', JObj
        [(''symbolic'', JStr ''4*pi''), (''numerical'', JNum 12.566371), (''error'', JNum 0.05)]),
     (''verification'', JObj
        [(''surface'', JNum 12.566371), (''volume'', JNum 12.566371), (''difference'', JNum 0.001)]),
     (''description'', JStr ''iint F.n dS = iiint(nabla.F) dV''),
     (''visualization'', get_prop DEMO_SURFACE_SCALAR ''visualization'')]"

definition DEMO_FIELD_LINES :: jsval where
  "DEMO_FIELD_LINES = JObj
    [(''success'', JBool True),
     (''field_lines'', JArr (map (\<lambda>i.
          let angle = (2 * pi * real i) / 8
          in JArr (map (\<lambda>j.
               let r = 0.3 + real j * 0.05; a = angle + real j * 0.1
               in JArr [JNum (r * cos a), JNum (r * sin a), JNum 0])
             [0..<30]))
        [0..<8])),
     (''num_lines'', JNum 8),
     (''region'', JObj
        [(''x_min'', JNum (- 2)), (''x_max'', JNum 2), (''y_min'', JNum (- 2)),
         (''y_max'', JNum 2), (''z_min'', JNum (- 1)), (''z_max'', JNum 1)])]"

definition DEMO_EQUIPOTENTIAL :: jsval where
  "DEMO_EQUIPOTENTIAL = JObj
    [(''success'', JBool True),
     (''scalar_field'', JStr ''x**2 + y**2''),
     (''contour_data'', JObj
        [(''x'', JArr (map (\<lambda>i. JNum (- 2 + 4 * real i / 49)) [0..<50])),
         (''y'', JArr (map (\<lambda>i. JNum (- 2 + 4 * real i / 49)) [0..<50])),
         (''z'', JArr (map (\<lambda>i.
              let y = - 2 + 4 * real i / 49
              in JArr (map (\<lambda>j. let x = - 2 + 4 * real j / 49 in JNum (x * x + y * y)) [0..<50]))
            [0..<50]))]),
     (''gradient_arrows'', JArr
        [JObj [(''origin'', JArr [JNum 1, JNum 0, JNum 0]), (''direction'', JArr [JNum 2, JNum 0, JNum 0])],
         JObj [(''origin'', JArr [JNum 0, JNum 1, JNum 0]), (''direction'', JArr [JNum 0, JNum 2, JNum 0])],
         JObj [(''origin'', JArr [JNum (- 1), JNum 0, JNum 0]),
               (''direction'', JArr [JNum (- 2), JNum 0, JNum 0])],
         JObj [(''origin'', JArr [JNum 0, JNum (- 1), JNum 0]),
               (''direction'', JArr [JNum 0, JNum (- 2), JNum 0])]]),
     (''z_min'', JNum 0),
     (''z_max'', JNum 8),
     (''num_levels'', JNum 10)]"

definition DEMO_PARSE :: jsval where
  "DEMO_PARSE = JObj
    [(''success'', JBool True),
     (''parsed'', JStr ''x**2''),
     (''latex'', JStr ''x^{2}''),
     (''simplified'', JStr ''x**2''),
     (''simplified_latex'', JStr ''x^{2}'')]"

definition DEMO_HEALTH :: jsval where
  "DEMO_HEALTH = JObj
    [(''status'', JStr ''healthy''),
     (''message'', JStr ''Integration Visualizer API (demo mode)''),
     (''version'', JStr ''2.0.0'')]"

definition DEMO_LATEX_EXPORT :: jsval where
  "DEMO_LATEX_EXPORT = JObj
    [(''success'', JBool True),
     (''latex'', JStr (bs @ ''int_{0}^{1} x^{2} '' @ bs @ '', dx = '' @ bs @ ''frac{1}{3}''))]"

text \<open>The example catalogue of \<^verbatim>\<open>utils/demoExamples.js\<close>.\<close>

definition DEMO_EXAMPLES :: jsval where
  "DEMO_EXAMPLES = JObj
      [(''1d'', JArr
           [JObj
              [(''name'', JStr ''Polynomial''),
               (''integrand'', JStr ''x^2''),
               (''lower_bound'', JStr ''0''),
               (''upper_bound'', JStr ''1'')],
            JObj
              [(''name'', JStr ''Trigonometric''),
               (''integrand'', JStr ''sin(x)''),
               (''lower_bound'', JStr ''0''),
               (''upper_bound'', JStr ''pi'')],
            JObj
              [(''name'', JStr ''Gaussian''),
               (''integrand'', JStr ''exp(-x^2)''),
               (''lower_bound'', JStr ''-3''),
               (''upper_bound'', JStr ''3'')],
            JObj
              [(''name'', JStr ''Rational''),
               (''integrand'', JStr ''1/(1+x^2)''),
               (''lower_bound'', JStr ''-10''),
               (''upper_bound'', JStr ''10'')]]),
       (''2d'', JArr
           [JObj
              [(''name'', JStr ''Rectangle - Polynomial''),
               (''integrand'', JStr ''x^2 + y^2''),
               (''region'', JObj
                   [(''type'', JStr ''rectangle''),
                    (''x_min'', JNum 0),
                    (''x_max'', JNum 1),
                    (''y_min'', JNum 0),
                    (''y_max'', JNum 1)])],
            JObj
              [(''name'', JStr ''Disk - Area (pi)''),
               (''integrand'', JStr ''1''),
               (''region'', JObj
                   [(''type'', JStr ''disk''),
                    (''center'', JArr [JNum 0, JNum 0]),
                    (''radius'', JNum 1)])]]),
       (''3d'', JArr
           [JObj
              [(''name'', JStr ''Unit Cube Volume''),
               (''integrand'', JStr ''1''),
               (''region'', JObj
                   [(''type'', JStr ''box''),
                    (''x_min'', JNum 0),
                    (''x_max'', JNum 1),
                    (''y_min'', JNum 0),
                    (''y_max'', JNum 1),
                    (''z_min'', JNum 0),
                    (''z_max'', JNum 1)])],
            JObj
              [(''name'', JStr ''Sphere Volume (4pi/3)''),
               (''integrand'', JStr ''1''),
               (''region'', JObj
                   [(''type'', JStr ''sphere''),
                    (''center'', JArr [JNum 0, JNum 0, JNum 0]),
                    (''radius'', JNum 1)])]]),
       (''line_scalar'', JArr
           [JObj
              [(''name'', JStr ''Circle Arc Length (2pi)''),
               (''integrand'', JStr ''1''),
               (''curve'', JObj [(''x'', JStr ''cos(t)''), (''y'', JStr ''sin(t)''), (''z'', JStr ''0'')]),
               (''t_start'', JNum 0),
               (''t_end'', JStr ''2*pi''),
               (''description'', JStr ''Circumference of unit circle'')]]),
       (''line_vector'', JArr
           [JObj
              [(''name'', JStr ''Circulation (2pi)''),
               (''vector_field'', JObj [(''x'', JStr ''-y''), (''y'', JStr ''x''), (''z'', JStr ''0'')]),
               (''curve'', JObj [(''x'', JStr ''cos(t)''), (''y'', JStr ''sin(t)''), (''z'', JStr ''0'')]),
               (''t_start'', JNum 0),
               (''t_end'', JStr ''2*pi''),
               (''description'', JStr ''Vortex field circulation'')]]),
       (''surface_scalar'', JArr
           [JObj
              [(''name'', JStr ''Hemisphere Area (2pi)''),
               (''integrand'', JStr ''1''),
               (''surface'', JObj
                   [(''x'', JStr ''sin(u)*cos(v)''),
                    (''y'', JStr ''sin(u)*sin(v)''),
                    (''z'', JStr ''cos(u)'')]),
               (''u_range'', JArr [JNum 0, JStr ''pi/2'']),
               (''v_range'', JArr [JNum 0, JStr ''2*pi'']),
               (''description'', JStr ''Upper hemisphere'')]]),
       (''flux'', JArr
           [JObj
              [(''name'', JStr ''Radial Flux (Hemisphere)''),
               (''vector_field'', JObj [(''x'', JStr ''x''), (''y'', JStr ''y''), (''z'', JStr ''z'')]),
               (''surface'', JObj
                   [(''x'', JStr ''sin(u)*cos(v)''),
                    (''y'', JStr ''sin(u)*sin(v)''),
                    (''z'', JStr ''cos(u)'')]),
               (''u_range'', JArr [JNum 0, JStr ''pi/2'']),
               (''v_range'', JArr [JNum 0, JStr ''2*pi'']),
               (''description'', JStr ''F = r through hemisphere'')]]),
       (''vector_operations'', JArr
           [JObj
              [(''name'', JStr ''Gradient: Distance''),
               (''operation'', JStr ''gradient''),
               (''scalar_field'', JStr ''sqrt(x^2 + y^2 + z^2)''),
               (''description'', JStr ''grad r = r_hat'')],
            JObj
              [(''name'', JStr ''Divergence: Position''),
               (''operation'', JStr ''divergence''),
               (''vector_field'', JObj [(''x'', JStr ''x''), (''y'', JStr ''y''), (''z'', JStr ''z'')]),
               (''description'', JStr ''div r = 3'')],
            JObj
              [(''name'', JStr ''Curl: Rotation''),
               (''operation'', JStr ''curl''),
               (''vector_field'', JObj [(''x'', JStr ''-y''), (''y'', JStr ''x''), (''z'', JStr ''0'')]),
               (''description'', JStr ''curl(-y,x,0) = 2k_hat'')]]),
       (''vector_fields'', JArr
           [JObj
              [(''name'', JStr ''Radial Source''),
               (''vector_field'', JObj [(''x'', JStr ''x''), (''y'', JStr ''y''), (''z'', JStr ''z'')]),
               (''region'', JObj
                   [(''x_min'', JNum (- 2)),
                    (''x_max'', JNum 2),
                    (''y_min'', JNum (- 2)),
                    (''y_max'', JNum 2),
                    (''z_min'', JNum (- 2)),
                    (''z_max'', JNum 2)]),
               (''description'', JStr ''Expanding flow'')],
            JObj
              [(''name'', JStr ''Vortex (z-axis)''),
               (''vector_field'', JObj [(''x'', JStr ''-y''), (''y'', JStr ''x''), (''z'', JStr ''0'')]),
               (''region'', JObj
                   [(''x_min'', JNum (- 2)),
                    (''x_max'', JNum 2),
                    (''y_min'', JNum (- 2)),
                    (''y_max'', JNum 2),
                    (''z_min'', JNum (- 1)),
                    (''z_max'', JNum 1)]),
               (''description'', JStr ''Rotation about z'')]]),
       (''physics'', JArr
           [JObj
              [(''name'', JStr ''Point Charge E-field''),
               (''category'', JStr ''electromagnetism''),
               (''type'', JStr ''vector_field''),
               (''vector_field'', JObj
                   [(''x'', JStr ''x/(x^2+y^2+z^2)^(3/2)''),
                    (''y'', JStr ''y/(x^2+y^2+z^2)^(3/2)''),
                    (''z'', JStr ''z/(x^2+y^2+z^2)^(3/2)'')]),
               (''description'', JStr ''E = kq/r^2 radial field''),
               (''physics_note'', JStr ''Coulombs law'')],
            JObj
              [(''name'', JStr ''Gravitational Field''),
               (''category'', JStr ''mechanics''),
               (''type'', JStr ''vector_field''),
               (''vector_field'', JObj
                   [(''x'', JStr ''-x/(x^2+y^2+z^2)^(3/2)''),
                    (''y'', JStr ''-y/(x^2+y^2+z^2)^(3/2)''),
                    (''z'', JStr ''-z/(x^2+y^2+z^2)^(3/2)'')]),
               (''description'', JStr ''g = -GM/r^2 radial''),
               (''physics_note'', JStr ''Newtons gravitation'')]]),
       (''theorems'', JArr
           [JObj
              [(''name'', JStr (''Green'' @ [CHR 0x27] @ ''s Theorem (Area)'')),
               (''type'', JStr ''greens''),
               (''vector_field'', JObj [(''x'', JStr ''-y/2''), (''y'', JStr ''x/2'')]),
               (''curve'', JObj [(''x'', JStr ''cos(t)''), (''y'', JStr ''sin(t)'')]),
               (''t_start'', JNum 0),
               (''t_end'', JStr ''2*pi''),
               (''description'', JStr ''oint(-y dx + x dy)/2 = Area''),
               (''expected'', JStr ''pi'')],
            JObj
              [(''name'', JStr ''Divergence Theorem''),
               (''type'', JStr ''divergence''),
               (''vector_field'', JObj [(''x'', JStr ''x''), (''y'', JStr ''y''), (''z'', JStr ''z'')]),
               (''surface'', JObj
                   [(''x'', JStr ''sin(u)*cos(v)''),
                    (''y'', JStr ''sin(u)*sin(v)''),
                    (''z'', JStr ''cos(u)'')]),
               (''u_range'', JArr [JNum 0, JStr ''pi'']),
               (''v_range'', JArr [JNum 0, JStr ''2*pi'']),
               (''description'', JStr ''iint F.n dS = iiint div F dV''),
               (''expected'', JStr ''4pi (since div r = 3)'')]])]"

section \<open>The demo lookup\<close>

text \<open>
  \<^verbatim>\<open>getDemoResponse(method, path, body)\<close>. It returns \<^verbatim>\<open>null\<close> (\<open>Inr JNull\<close>) when
  no response matches. Its only computation on the body is
  \<^verbatim>\<open>const op = body?.operation || 'gradient'; return DEMO_VECTOR_OPS[op] || DEMO_VECTOR_OPS.gradient\<close>,
  where the key \<^verbatim>\<open>op\<close> is converted by \<^verbatim>\<open>ToString\<close>; that conversion can throw,
  hence the result type.
\<close>

definition getDemoResponse :: "coercion \<Rightarrow> string \<Rightarrow> string \<Rightarrow> jsval \<Rightarrow> js_error + jsval" where
  "getDemoResponse rt method path body =
    (if method = ''GET'' then
       (if path = ''/api/health'' then Inr DEMO_HEALTH
        else if path = ''/api/examples'' then Inr DEMO_EXAMPLES
        else Inr JNull)
     else if path = ''/api/parse'' then Inr DEMO_PARSE
     else if path = ''/api/integrate/1d'' then Inr DEMO_1D
     else if path = ''/api/integrate/2d'' then Inr DEMO_2D
     else if path = ''/api/integrate/3d'' then Inr DEMO_3D
     else if path = ''/api/integrate/line/scalar'' then Inr DEMO_LINE_SCALAR
     else if path = ''/api/integrate/line/vector'' then Inr DEMO_LINE_VECTOR
     else if path = ''/api/integrate/surface/scalar'' then Inr DEMO_SURFACE_SCALAR
     else if path = ''/api/integrate/flux'' then Inr DEMO_FLUX
     else if path = ''/api/vector/operations'' then
       (let op = js_or (opt_prop body ''operation'') (JStr ''gradient'')
        in case ToString rt op of
             Inl e \<Rightarrow> Inl e
           | Inr k \<Rightarrow> Inr (js_or (get_prop DEMO_VECTOR_OPS k) (get_prop DEMO_VECTOR_OPS ''gradient'')))
     else if path = ''/api/visualize/vector_field'' then Inr DEMO_VECTOR_FIELD
     else if path = ''/api/theorem/greens'' then Inr DEMO_GREENS
     else if path = ''/api/theorem/stokes'' then Inr DEMO_STOKES
     else if path = ''/api/theorem/divergence'' then Inr DEMO_DIVERGENCE
     else if path = ''/api/physics/field_lines'' then Inr DEMO_FIELD_LINES
     else if path = ''/api/physics/equipotential'' then Inr DEMO_EQUIPOTENTIAL
     else if path = ''/api/export/latex'' then Inr DEMO_LATEX_EXPORT
     else Inr JNull)"

section \<open>The demo lookup in an engine with state\<close>











section \<open>The API client (\<^verbatim>\<open>utils/api.js\<close>)\<close>

text \<open>
  What the client cannot decide by itself is its environment: the module constant
  \<^verbatim>\<open>isDemo\<close> (read from \<^verbatim>\<open>window.location\<close> when the module loads); the exchange with
  the server, that is \<^verbatim>\<open>encode\<close>, \<^verbatim>\<open>fetch\<close>, \<^verbatim>\<open>arrayBuffer\<close> and \<^verbatim>\<open>decode\<close>,
  which for a URL and a body either throws (or rejects) or yields the decoded value;
  and the engine's \<^verbatim>\<open>ToString\<close>. An \<^verbatim>\<open>async\<close> function is modelled by its outcome:
  \<open>Inl e\<close> when the promise rejects with \<open>e\<close>, \<open>Inr v\<close> when it resolves with \<open>v\<close>;
  the 300 ms delay of the demo mode is not modelled.
\<close>

record environment =
  isDemo :: bool
  exchange :: "string \<Rightarrow> jsval \<Rightarrow> js_error + jsval"
  runtime :: coercion

definition API_BASE :: string where
  "API_BASE = ''/api''"

definition realApiRequest :: "environment \<Rightarrow> string \<Rightarrow> jsval \<Rightarrow> js_error + jsval" where
  "realApiRequest env endpoint body =
     (case exchange env (API_BASE @ endpoint) body of
        Inl e \<Rightarrow> Inl e
      | Inr data \<Rightarrow>
          (case read_prop data ''success'' of
             Inl e \<Rightarrow> Inl e
           | Inr ok \<Rightarrow>
               if \<not> truthy ok then
                 Inl (throw_new_Error (runtime env)
                        (js_or (get_prop data ''error'') (JStr ''Computation failed'')))
               else Inr data))"

definition demoApiRequest :: "coercion \<Rightarrow> string \<Rightarrow> jsval \<Rightarrow> js_error + jsval" where
  "demoApiRequest rt endpoint body =
     (case getDemoResponse rt ''POST'' (''/api'' @ endpoint) body of
        Inl e \<Rightarrow> Inl e
      | Inr data \<Rightarrow>
          if \<not> truthy data then
            Inl (throw_new_Error rt (JStr ''This endpoint is not available in demo mode''))
          else Inr data)"

definition apiRequest :: "environment \<Rightarrow> string \<Rightarrow> jsval \<Rightarrow> js_error + jsval" where
  "apiRequest env endpoint body =
     (if isDemo env then demoApiRequest (runtime env) endpoint body
      else realApiRequest env endpoint body)"

text \<open>Sequencing of steps that may throw: the first error ends the sequence.\<close>

definition bind_result :: "js_error + 'a \<Rightarrow> ('a \<Rightarrow> js_error + 'b) \<Rightarrow> js_error + 'b" where
  "bind_result r f = (case r of Inl e \<Rightarrow> Inl e | Inr v \<Rightarrow> f v)"

text \<open>
  \<^verbatim>\<open>getComputeConfig(integralType, state)\<close>: the endpoint and the request body for an
  integral type. The destructuring of \<^verbatim>\<open>state\<close> throws a \<^verbatim>\<open>TypeError\<close> when
  \<^verbatim>\<open>state\<close> is \<^verbatim>\<open>null\<close> or \<^verbatim>\<open>undefined\<close>, and so does a read such as
  \<^verbatim>\<open>bounds1D.lower\<close> when \<^verbatim>\<open>bounds1D\<close> is; the \<^verbatim>\<open>default\<close> branch of the
  \<^verbatim>\<open>switch\<close> throws \<^verbatim>\<open>Error('Unknown integral type')\<close>.
\<close>

definition getComputeConfig :: "string \<Rightarrow> jsval \<Rightarrow> js_error + (string \<times> jsval)" where
  "getComputeConfig integralType state =
    (if nullish state then
       Inl (JsError ''TypeError''
              (''Cannot destructure property '' @ [CHR 0x27] @ ''integrand'' @ [CHR 0x27] @ '' of ''
               @ [CHR 0x27] @ ''state'' @ [CHR 0x27] @ '' as it is ''
               @ (if state = JNull then ''null'' else ''undefined'') @ ''.''))
     else
       (let integrand = get_prop state ''integrand'';
            bounds1D = get_prop state ''bounds1D'';
            region2D = get_prop state ''region2D'';
            region3D = get_prop state ''region3D'';
            vectorField = get_prop state ''vectorField'';
            curve = get_prop state ''curve'';
            tRange = get_prop state ''tRange'';
            surface = get_prop state ''surface'';
            uRange = get_prop state ''uRange'';
            vRange = get_prop state ''vRange'';
            scalarField = get_prop state ''scalarField'';
            vectorOp = get_prop state ''vectorOp'';
            theoremType = get_prop state ''theoremType'';
            P_field = get_prop state ''P_field'';
            Q_field = get_prop state ''Q_field''
        in
          if integralType = ''1d'' then
            bind_result (read_prop bounds1D ''lower'') (\<lambda>lower.
            bind_result (read_prop bounds1D ''upper'') (\<lambda>upper.
              Inr (''/integrate/1d'',
                   JObj [(''integrand'', integrand), (''lower_bound'', lower), (''upper_bound'', upper)])))
          else if integralType = ''2d'' then
            Inr (''/integrate/2d'', JObj [(''integrand'', integrand), (''region'', region2D)])
          else if integralType = ''3d'' then
            Inr (''/integrate/3d'', JObj [(''integrand'', integrand), (''region'', region3D)])
          else if integralType = ''line_scalar'' then
            bind_result (read_prop tRange ''start'') (\<lambda>t_start.
            bind_result (read_prop tRange ''end'') (\<lambda>t_end.
              Inr (''/integrate/line/scalar'',
                   JObj [(''integrand'', integrand), (''curve'', curve),
                         (''t_start'', t_start), (''t_end'', t_end)])))
          else if integralType = ''line_vector'' then
            bind_result (read_prop tRange ''start'') (\<lambda>t_start.
            bind_result (read_prop tRange ''end'') (\<lambda>t_end.
              Inr (''/integrate/line/vector'',
                   JObj [(''vector_field'', vectorField), (''curve'', curve),
                         (''t_start'', t_start), (''t_end'', t_end)])))
          else if integralType = ''surface_scalar'' then
            Inr (''/integrate/surface/scalar'',
                 JObj [(''integrand'', integrand), (''surface'', surface),
                       (''u_range'', uRange), (''v_range'', vRange)])
          else if integralType = ''flux'' then
            Inr (''/integrate/flux'',
                 JObj [(''vector_field'', vectorField), (''surface'', surface),
                       (''u_range'', uRange), (''v_range'', vRange)])
          else if integralType = ''vector_operations'' then
            Inr (''/vector/operations'',
                 if vectorOp = JStr ''gradient''
                 then JObj [(''operation'', vectorOp), (''scalar_field'', scalarField)]
                 else JObj [(''operation'', vectorOp), (''vector_field'', vectorField)])
          else if integralType = ''vector_fields'' \<or> integralType = ''physics'' then
            Inr (''/visualize/vector_field'',
                 JObj [(''vector_field'', vectorField),
                       (''region'', JObj
                          [(''x_min'', JNum (- 2)), (''x_max'', JNum 2), (''y_min'', JNum (- 2)),
                           (''y_max'', JNum 2), (''z_min'', JNum (- 2)), (''z_max'', JNum 2)])])
          else if integralType = ''theorems'' then
            (if theoremType = JStr ''greens'' then
               bind_result (read_prop curve ''x'') (\<lambda>cx.
               bind_result (read_prop curve ''y'') (\<lambda>cy.
               bind_result (read_prop tRange ''start'') (\<lambda>t_start.
               bind_result (read_prop tRange ''end'') (\<lambda>t_end.
                 Inr (''/theorem/greens'',
                      JObj [(''P'', P_field), (''Q'', Q_field),
                            (''curve'', JObj [(''x'', cx), (''y'', cy)]),
                            (''t_start'', t_start), (''t_end'', t_end)])))))
             else if theoremType = JStr ''stokes'' then
               bind_result (read_prop tRange ''start'') (\<lambda>t_start.
               bind_result (read_prop tRange ''end'') (\<lambda>t_end.
                 Inr (''/theorem/stokes'',
                      JObj [(''vector_field'', vectorField), (''surface'', surface), (''curve'', curve),
                            (''u_range'', uRange), (''v_range'', vRange),
                            (''t_start'', t_start), (''t_end'', t_end)])))
             else
               Inr (''/theorem/divergence'',
                    JObj [(''vector_field'', vectorField), (''surface'', surface),
                          (''volume_region'', region3D), (''u_range'', uRange), (''v_range'', vRange)]))
          else if integralType = ''field_lines'' then
            Inr (''/physics/field_lines'',
                 JObj [(''vector_field'', vectorField),
                       (''region'', JObj
                          [(''x_min'', JNum (- 2)), (''x_max'', JNum 2), (''y_min'', JNum (- 2)),
                           (''y_max'', JNum 2), (''z_min'', JNum (- 1)), (''z_max'', JNum 1)]),
                       (''num_lines'', JNum 25), (''steps'', JNum 150)])
          else Inl (JsError ''Error'' ''Unknown integral type'')))"

section \<open>The computation hook (\<^verbatim>\<open>hooks/useComputation.js\<close>)\<close>

text \<open>
  The four state cells of \<^verbatim>\<open>useComputation\<close>, each initially \<^verbatim>\<open>null\<close> or
  \<^verbatim>\<open>false\<close>. A call of a setter is an update of the record.
\<close>

record hook_state =
  result :: jsval
  visualization :: jsval
  loading :: bool
  error :: jsval

definition initial_state :: hook_state where
  "initial_state = \<lparr>result = JNull, visualization = JNull, loading = False, error = JNull\<rparr>"

text \<open>
  A setter of \<^verbatim>\<open>useState\<close> does not always store its argument: React treats an
  argument that is a function as an updater, calls it with the previous state and
  stores what it returns. The only functions among the values of the model are the
  callable members of \<^verbatim>\<open>Object.prototype\<close>. React calls the updater as a plain
  function, so its \<^verbatim>\<open>this\<close> is \<^verbatim>\<open>undefined\<close>; what each of them does then is
  written out after the ECMAScript specification: \<^verbatim>\<open>Object(v)\<close> makes an object of
  \<open>v\<close>; \<^verbatim>\<open>toString\<close> answers \<^verbatim>\<open>[object Undefined]\<close>; \<^verbatim>\<open>isPrototypeOf\<close> answers
  \<^verbatim>\<open>false\<close> for an argument that is not an object; \<^verbatim>\<open>hasOwnProperty\<close> and
  \<^verbatim>\<open>propertyIsEnumerable\<close> convert their argument to a key first; every other path
  converts \<^verbatim>\<open>this\<close> to an object, which throws a \<^verbatim>\<open>TypeError\<close> (its message is the
  engine's; V8's wording is used).
\<close>

fun is_object :: "jsval \<Rightarrow> bool" where
  "is_object (JArr xs) = True"
| "is_object (JObj ps) = True"
| "is_object (JBuiltin n) = True"
| "is_object (JBoxed v) = True"
| "is_object v = False"

definition callable_builtins :: "string list" where
  "callable_builtins =
     [''Object'',
      ''Object.prototype.__defineGetter__'', ''Object.prototype.__defineSetter__'',
      ''Object.prototype.hasOwnProperty'',
      ''Object.prototype.__lookupGetter__'', ''Object.prototype.__lookupSetter__'',
      ''Object.prototype.isPrototypeOf'', ''Object.prototype.propertyIsEnumerable'',
      ''Object.prototype.toString'', ''Object.prototype.valueOf'',
      ''Object.prototype.toLocaleString'']"

fun is_function :: "jsval \<Rightarrow> bool" where
  "is_function (JBuiltin n) = (n \<in> set callable_builtins)"
| "is_function v = False"

definition to_object_error :: js_error where
  "to_object_error = JsError ''TypeError'' ''Cannot convert undefined or null to object''"

text \<open>\<^verbatim>\<open>f(arg)\<close> for the built-in function named \<open>n\<close>, with \<^verbatim>\<open>this\<close> undefined.\<close>

definition call_builtin :: "coercion \<Rightarrow> string \<Rightarrow> jsval \<Rightarrow> js_error + jsval" where
  "call_builtin rt n arg =
     (if n = ''Object'' then
        (if nullish arg then Inr (JObj [])
         else if is_object arg then Inr arg
         else Inr (JBoxed arg))
      else if n = ''Object.prototype.toString'' then Inr (JStr ''[object Undefined]'')
      else if n = ''Object.prototype.isPrototypeOf'' then
        (if is_object arg then Inl to_object_error else Inr (JBool False))
      else if n = ''Object.prototype.hasOwnProperty''
              \<or> n = ''Object.prototype.propertyIsEnumerable'' then
        (case ToString rt arg of Inl e \<Rightarrow> Inl e | Inr k \<Rightarrow> Inl to_object_error)
      else if n \<in> set callable_builtins then Inl to_object_error
      else Inl (JsError ''TypeError'' (n @ '' is not a function'')))"

text \<open>
  The state that \<^verbatim>\<open>setX(v)\<close> leaves in a cell whose state is \<open>prev\<close>, or the error
  that the updater throws. React suppresses that error where the setter is called and
  throws it again when it renders the component: the setter itself returns, the
  function that called it runs on, and the render that would have committed the new
  state throws instead.
\<close>

definition set_state :: "coercion \<Rightarrow> jsval \<Rightarrow> jsval \<Rightarrow> js_error + jsval" where
  "set_state rt prev v =
     (case v of
        JBuiltin n \<Rightarrow> if is_function v then call_builtin rt n prev else Inr v
      | _ \<Rightarrow> Inr v)"

text \<open>
  The \<^verbatim>\<open>try\<close> block of \<^verbatim>\<open>compute\<close>. Its outcome is \<open>Inr (st, thrown)\<close>, the state
  it leaves and the error it threw into the \<^verbatim>\<open>catch\<close> clause, if any; or \<open>Inl e\<close>
  when an updater handed to \<^verbatim>\<open>setResult\<close> or \<^verbatim>\<open>setVisualization\<close> throws \<open>e\<close>, which
  the next render throws again. The two setters run one after the other, each after the
  property read of its argument.
\<close>

definition try_block ::
  "environment \<Rightarrow> string \<Rightarrow> jsval \<Rightarrow> hook_state \<Rightarrow> js_error + (hook_state \<times> js_error option)" where
  "try_block env integralType formState st =
     (case getComputeConfig integralType formState of
        Inl e \<Rightarrow> Inr (st, Some e)
      | Inr (endpoint, body) \<Rightarrow>
          (case apiRequest env endpoint body of
             Inl e \<Rightarrow> Inr (st, Some e)
           | Inr data \<Rightarrow>
               (case read_prop data ''result'' of
                  Inl e \<Rightarrow> Inr (st, Some e)
                | Inr r \<Rightarrow>
                    (case set_state (runtime env) (result st) (js_or r data) of
                       Inl e \<Rightarrow> Inl e
                     | Inr r' \<Rightarrow>
                         (let st' = st\<lparr>result := r'\<rparr>
                          in case read_prop data ''visualization'' of
                               Inl e \<Rightarrow> Inr (st', Some e)
                             | Inr v \<Rightarrow>
                                 (case set_state (runtime env) (visualization st') (js_or v data) of
                                    Inl e \<Rightarrow> Inl e
                                  | Inr v' \<Rightarrow> Inr (st'\<lparr>visualization := v'\<rparr>, None)))))))"

text \<open>
  \<^verbatim>\<open>compute(integralType, formState)\<close>, run from the state \<open>st\<close>: the four resets, the
  \<^verbatim>\<open>try\<close> block, \<^verbatim>\<open>setError(err.message)\<close> in the \<^verbatim>\<open>catch\<close> clause,
  \<^verbatim>\<open>setLoading(false)\<close> in the \<^verbatim>\<open>finally\<close> clause. The arguments of these setters
  are \<^verbatim>\<open>null\<close>, booleans and a string, which are stored as they are. The outcome is
  \<open>Inr st'\<close>, the state that the hook has once the promise has settled and React has
  rendered; or \<open>Inl e\<close> when that render throws \<open>e\<close>: then the state after the
  resets, with \<^verbatim>\<open>loading\<close> \<^verbatim>\<open>true\<close>, is the last one that the hook has.
  No other update of the state is interleaved (the button that calls \<^verbatim>\<open>compute\<close> is
  disabled while \<^verbatim>\<open>loading\<close>).
\<close>

definition compute :: "environment \<Rightarrow> string \<Rightarrow> jsval \<Rightarrow> hook_state \<Rightarrow> js_error + hook_state" where
  "compute env integralType formState st =
     (let st0 = st\<lparr>loading := True\<rparr>\<lparr>error := JNull\<rparr>\<lparr>result := JNull\<rparr>\<lparr>visualization := JNull\<rparr>
      in case try_block env integralType formState st0 of
           Inl e \<Rightarrow> Inl e
         | Inr (st1, thrown) \<Rightarrow>
             (let st2 = (case thrown of
                           Some err \<Rightarrow> st1\<lparr>error := JStr (err_message err)\<rparr>
                         | None \<Rightarrow> st1)
              in Inr (st2\<lparr>loading := False\<rparr>)))"

text \<open>\<^verbatim>\<open>reset\<close>\<close>

definition reset :: "hook_state \<Rightarrow> hook_state" where
  "reset st = st\<lparr>result := JNull\<rparr>\<lparr>visualization := JNull\<rparr>\<lparr>error := JNull\<rparr>"

text \<open>
  What the \<^verbatim>\<open>try\<close> block of \<^verbatim>\<open>compute\<close> asks for: the configuration, then the
  request. Its outcome is the thrown error or the response.
\<close>

definition request :: "environment \<Rightarrow> string \<Rightarrow> jsval \<Rightarrow> js_error + jsval" where
  "request env integralType formState =
     bind_result (getComputeConfig integralType formState)
       (\<lambda>(endpoint, body). apiRequest env endpoint body)"

section \<open>Concrete inputs\<close>

text \<open>
  An engine conversion to instantiate \<open>rt\<close> with (\<^verbatim>\<open>String({})\<close> is
  \<^verbatim>\<open>"[object Object]"\<close>), and the form state that \<^verbatim>\<open>App.jsx\<close> hands to
  \<^verbatim>\<open>compute\<close> before the user edits a field (the initial values of its
  \<^verbatim>\<open>useState\<close> cells).
\<close>

definition sample_runtime :: coercion where
  "sample_runtime v = Inr ''[object Object]''"

definition App_initial_form :: jsval where
  "App_initial_form = JObj
    [(''integrand'', JStr ''x^2''),
     (''bounds1D'', JObj [(''lower'', JStr ''0''), (''upper'', JStr ''1'')]),
     (''region2D'', JObj
        [(''type'', JStr ''rectangle''), (''x_min'', JStr ''0''), (''x_max'', JStr ''1''),
         (''y_min'', JStr ''0''), (''y_max'', JStr ''1'')]),
     (''region3D'', JObj
        [(''type'', JStr ''box''), (''x_min'', JStr ''0''), (''x_max'', JStr ''1''),
         (''y_min'', JStr ''0''), (''y_max'', JStr ''1''), (''z_min'', JStr ''0''), (''z_max'', JStr ''1'')]),
     (''vectorField'', JObj [(''x'', JStr ''-y''), (''y'', JStr ''x''), (''z'', JStr ''0'')]),
     (''curve'', JObj [(''x'', JStr ''cos(t)''), (''y'', JStr ''sin(t)''), (''z'', JStr ''0'')]),
     (''tRange'', JObj [(''start'', JStr ''0''), (''end'', JStr ''2*pi'')]),
     (''surface'', JObj
        [(''x'', JStr ''sin(u)*cos(v)''), (''y'', JStr ''sin(u)*sin(v)''), (''z'', JStr ''cos(u)'')]),
     (''uRange'', JArr [JStr ''0'', JStr ''pi/2'']),
     (''vRange'', JArr [JStr ''0'', JStr ''2*pi'']),
     (''scalarField'', JStr ''x^2 + y^2 + z^2''),
     (''vectorOp'', JStr ''gradient''),
     (''theoremType'', JStr ''greens''),
     (''P_field'', JStr ''-y/2''),
     (''Q_field'', JStr ''x/2'')]"

text \<open>
  The flux request for the radial field through the hemisphere and the line integral
  request for the arc length of the unit circle, as \<^verbatim>\<open>getComputeConfig\<close> builds them.
\<close>

definition hemisphere_flux_body :: jsval where
  "hemisphere_flux_body = JObj
     [(''vector_field'', JObj [(''x'', JStr ''x''), (''y'', JStr ''y''), (''z'', JStr ''z'')]),
      (''surface'', JObj
         [(''x'', JStr ''sin(u)*cos(v)''), (''y'', JStr ''sin(u)*sin(v)''), (''z'', JStr ''cos(u)'')]),
      (''u_range'', JArr [JStr ''0'', JStr ''pi/2'']),
      (''v_range'', JArr [JStr ''0'', JStr ''2*pi''])]"

definition unit_circle_body :: jsval where
  "unit_circle_body = JObj
     [(''integrand'', JStr ''1''),
      (''curve'', JObj [(''x'', JStr ''cos(t)''), (''y'', JStr ''sin(t)''), (''z'', JStr ''0'')]),
      (''t_start'', JStr ''0''),
      (''t_end'', JStr ''2*pi'')]"

text \<open>
  A server that answers every request with a failure response, and two environments:
  the client talking to that server, and the client in demo mode.
\<close>

definition failed_response :: jsval where
  "failed_response = JObj [(''success'', JBool False), (''error'', JStr ''Could not parse expression'')]"

definition failing_exchange :: "string \<Rightarrow> jsval \<Rightarrow> js_error + jsval" where
  "failing_exchange url body = Inr failed_response"

definition server_env :: environment where
  "server_env = \<lparr>isDemo = False, exchange = failing_exchange, runtime = sample_runtime\<rparr>"

definition demo_env :: environment where
  "demo_env = \<lparr>isDemo = True, exchange = failing_exchange, runtime = sample_runtime\<rparr>"

text \<open>
  The form state of \<^verbatim>\<open>App.jsx\<close> after \<^verbatim>\<open>setVectorOp(tag)\<close>.
\<close>

definition vector_op_form :: "string \<Rightarrow> jsval" where
  "vector_op_form tag =
     (case App_initial_form of
        JObj ps \<Rightarrow> JObj (map (\<lambda>(k, v). if k = ''vectorOp'' then (k, JStr tag) else (k, v)) ps)
      | v \<Rightarrow> v)"






section \<open>The properties under verification\<close>

text \<open>A value is a number; a number lies within \<open>tol\<close> of \<open>c\<close>; a number is at most \<open>tol\<close>.\<close>

definition is_number :: "jsval \<Rightarrow> bool" where
  "is_number v = (case v of JNum x \<Rightarrow> True | _ \<Rightarrow> False)"

definition num_within :: "real \<Rightarrow> real \<Rightarrow> jsval \<Rightarrow> bool" where
  "num_within c tol v = (case v of JNum x \<Rightarrow> \<bar>x - c\<bar> \<le> tol | _ \<Rightarrow> False)"

definition difference_at_most :: "real \<Rightarrow> jsval \<Rightarrow> bool" where
  "difference_at_most tol v = (case v of JNum d \<Rightarrow> d \<le> tol | _ \<Rightarrow> False)"

text \<open>
  The report of a theorem verification, as the specification words it: under
  \<^verbatim>\<open>verification\<close> the response carries the boundary value, the interior value and
  \<open>difference = |boundary - interior|\<close>. The second predicate asks of the difference
  only that it bounds \<open>|boundary - interior|\<close>.
\<close>

definition reports_cross_check :: "string \<Rightarrow> string \<Rightarrow> jsval \<Rightarrow> bool" where
  "reports_cross_check boundary interior r =
     (let v = get_prop r ''verification''
      in case (get_prop v boundary, get_prop v interior, get_prop v ''difference'') of
           (JNum b, JNum i, JNum d) \<Rightarrow> d = \<bar>b - i\<bar>
         | _ \<Rightarrow> False)"

definition reports_values_and_bound :: "string \<Rightarrow> string \<Rightarrow> jsval \<Rightarrow> bool" where
  "reports_values_and_bound boundary interior r =
     (let v = get_prop r ''verification''
      in case (get_prop v boundary, get_prop v interior, get_prop v ''difference'') of
           (JNum b, JNum i, JNum d) \<Rightarrow> \<bar>b - i\<bar> \<le> d
         | _ \<Rightarrow> False)"

text \<open>
  The endpoints that answer with an integral result, and the invariant of an integral
  result as the specification words it: the numerical value is present, and the error
  estimate is 0 whenever a symbolic closed form is present.
\<close>

definition integral_paths :: "string list" where
  "integral_paths =
     [''/api/integrate/1d'', ''/api/integrate/2d'', ''/api/integrate/3d'',
      ''/api/integrate/line/scalar'', ''/api/integrate/line/vector'',
      ''/api/integrate/surface/scalar'', ''/api/integrate/flux'']"

definition has_symbolic :: "jsval \<Rightarrow> bool" where
  "has_symbolic res = (get_prop res ''symbolic'' \<noteq> JUndefined)"

definition exact_when_symbolic :: "jsval \<Rightarrow> bool" where
  "exact_when_symbolic res =
     (is_number (get_prop res ''numerical'')
      \<and> (if has_symbolic res then get_prop res ''error'' = JNum 0 else True))"

definition positive_error :: "jsval \<Rightarrow> bool" where
  "positive_error res = (case get_prop res ''error'' of JNum e \<Rightarrow> 0 < e | _ \<Rightarrow> False)"

text \<open>
  Exchanging the \<^verbatim>\<open>u_range\<close> and the \<^verbatim>\<open>v_range\<close> of a request body; the numerical
  value that a flux response reports; one number is the negation of another.
\<close>

fun swap_ranges :: "jsval \<Rightarrow> jsval" where
  "swap_ranges (JObj ps) =
     JObj (map (\<lambda>(k, v).
        if k = ''u_range'' then (k, obj_member ps ''v_range'')
        else if k = ''v_range'' then (k, obj_member ps ''u_range'')
        else (k, v)) ps)"
| "swap_ranges v = v"

definition flux_numerical :: "js_error + jsval \<Rightarrow> jsval" where
  "flux_numerical out =
     (case out of Inl e \<Rightarrow> JUndefined | Inr r \<Rightarrow> get_prop (get_prop r ''result'') ''numerical'')"

definition negated :: "jsval \<Rightarrow> jsval \<Rightarrow> bool" where
  "negated v w = (case (v, w) of (JNum x, JNum y) \<Rightarrow> y = - x | _ \<Rightarrow> False)"

text \<open>
  The numerical value of an integral result equals \<open>c\<close> to within the error estimate
  that the same result reports.
\<close>

definition within_reported_error :: "real \<Rightarrow> jsval \<Rightarrow> bool" where
  "within_reported_error c res =
     (case (get_prop res ''numerical'', get_prop res ''error'') of
        (JNum x, JNum e) \<Rightarrow> \<bar>x - c\<bar> \<le> e
      | _ \<Rightarrow> False)"

section \<open>Facts about the demo data\<close>

lemma getDemoResponse_POST_simps:
  "getDemoResponse rt ''POST'' ''/api/parse'' body = Inr DEMO_PARSE"
  "getDemoResponse rt ''POST'' ''/api/integrate/1d'' body = Inr DEMO_1D"
  "getDemoResponse rt ''POST'' ''/api/integrate/2d'' body = Inr DEMO_2D"
  "getDemoResponse rt ''POST'' ''/api/integrate/3d'' body = Inr DEMO_3D"
  "getDemoResponse rt ''POST'' ''/api/integrate/line/scalar'' body = Inr DEMO_LINE_SCALAR"
  "getDemoResponse rt ''POST'' ''/api/integrate/line/vector'' body = Inr DEMO_LINE_VECTOR"
  "getDemoResponse rt ''POST'' ''/api/integrate/surface/scalar'' body = Inr DEMO_SURFACE_SCALAR"
  "getDemoResponse rt ''POST'' ''/api/integrate/flux'' body = Inr DEMO_FLUX"
  "getDemoResponse rt ''POST'' ''/api/visualize/vector_field'' body = Inr DEMO_VECTOR_FIELD"
  "getDemoResponse rt ''POST'' ''/api/theorem/greens'' body = Inr DEMO_GREENS"
  "getDemoResponse rt ''POST'' ''/api/theorem/stokes'' body = Inr DEMO_STOKES"
  "getDemoResponse rt ''POST'' ''/api/theorem/divergence'' body = Inr DEMO_DIVERGENCE"
  "getDemoResponse rt ''POST'' ''/api/physics/field_lines'' body = Inr DEMO_FIELD_LINES"
  "getDemoResponse rt ''POST'' ''/api/physics/equipotential'' body = Inr DEMO_EQUIPOTENTIAL"
  "getDemoResponse rt ''POST'' ''/api/export/latex'' body = Inr DEMO_LATEX_EXPORT"
  by (simp_all add: getDemoResponse_def)

lemma success_fields:
  "get_prop DEMO_PARSE ''success'' = JBool True"
  "get_prop DEMO_1D ''success'' = JBool True"
  "get_prop DEMO_2D ''success'' = JBool True"
  "get_prop DEMO_3D ''success'' = JBool True"
  "get_prop DEMO_LINE_SCALAR ''success'' = JBool True"
  "get_prop DEMO_LINE_VECTOR ''success'' = JBool True"
  "get_prop DEMO_SURFACE_SCALAR ''success'' = JBool True"
  "get_prop DEMO_FLUX ''success'' = JBool True"
  "get_prop DEMO_VECTOR_FIELD ''success'' = JBool True"
  "get_prop DEMO_GREENS ''success'' = JBool True"
  "get_prop DEMO_STOKES ''success'' = JBool True"
  "get_prop DEMO_DIVERGENCE ''success'' = JBool True"
  "get_prop DEMO_FIELD_LINES ''success'' = JBool True"
  "get_prop DEMO_EQUIPOTENTIAL ''success'' = JBool True"
  "get_prop DEMO_LATEX_EXPORT ''success'' = JBool True"
  by (simp_all add: obj_member_def DEMO_PARSE_def DEMO_1D_def DEMO_2D_def DEMO_3D_def
      DEMO_LINE_SCALAR_def DEMO_LINE_VECTOR_def DEMO_SURFACE_SCALAR_def DEMO_FLUX_def
      DEMO_VECTOR_FIELD_def DEMO_GREENS_def DEMO_STOKES_def DEMO_DIVERGENCE_def
      DEMO_FIELD_LINES_def DEMO_EQUIPOTENTIAL_def DEMO_LATEX_EXPORT_def)

lemma integral_results:
  "get_prop DEMO_1D ''result'' = JObj
        [(''symbolic'', JStr ''1/3''),
         (''symbolic_latex'', JStr (bs @ ''frac{1}{3}'')),
         (''numerical'', JNum 0.333333),
         (''error'', JNum (3.7 / 10 ^ 15))]"
  "get_prop DEMO_2D ''result'' = JObj
        [(''symbolic'', JStr ''2/3''),
         (''symbolic_latex'', JStr (bs @ ''frac{2}{3}'')),
         (''numerical'', JNum 0.666667),
         (''error'', JNum (7.4 / 10 ^ 15))]"
  "get_prop DEMO_3D ''result'' = JObj
        [(''symbolic'', JStr ''1''),
         (''symbolic_latex'', JStr ''1''),
         (''numerical'', JNum 1.0),
         (''error'', JNum 0.001)]"
  "get_prop DEMO_LINE_SCALAR ''result'' = JObj
        [(''symbolic'', JStr ''2*pi''),
         (''symbolic_latex'', JStr (''2 '' @ bs @ ''pi'')),
         (''numerical'', JNum 6.283185),
         (''error'', JNum (1 / 10 ^ 12)),
         (''integrand_latex'', JStr ''1'')]"
  "get_prop DEMO_LINE_VECTOR ''result'' = JObj
        [(''symbolic'', JStr ''2*pi''),
         (''symbolic_latex'', JStr (''2 '' @ bs @ ''pi'')),
         (''numerical'', JNum 6.283185),
         (''error'', JNum (1 / 10 ^ 12)),
         (''integrand_latex'', JStr ''1'')]"
  "get_prop DEMO_SURFACE_SCALAR ''result'' = JObj
        [(''symbolic'', JStr ''2*pi''),
         (''symbolic_latex'', JStr (''2 '' @ bs @ ''pi'')),
         (''numerical'', JNum 6.283185),
         (''error'', JNum (1 / 10 ^ 10)),
         (''normal_vector'', JArr
            [JStr ''sin(u)**2*cos(v)'', JStr ''sin(u)**2*sin(v)'', JStr ''sin(u)*cos(u)'']),
         (''dS_latex'', JStr (bs @ ''sin{'' @ bs @ ''left(u '' @ bs @ ''right)}''))]"
  "get_prop DEMO_FLUX ''result'' = JObj
        [(''symbolic'', JStr ''2*pi''),
         (''symbolic_latex'', JStr (''2 '' @ bs @ ''pi'')),
         (''numerical'', JNum 6.283185),
         (''error'', JNum (1 / 10 ^ 10)),
         (''normal_vector'', JArr
            [JStr ''sin(u)**2*cos(v)'', JStr ''sin(u)**2*sin(v)'', JStr ''sin(u)*cos(u)'']),
         (''integrand_latex'', JStr (bs @ ''sin^{2}(u)''))]"
  by (simp_all add: obj_member_def DEMO_1D_def DEMO_2D_def DEMO_3D_def DEMO_LINE_SCALAR_def
      DEMO_LINE_VECTOR_def DEMO_SURFACE_SCALAR_def DEMO_FLUX_def)

lemma greens_fields:
  "get_prop DEMO_GREENS ''verification'' = JUndefined"
  "get_prop DEMO_GREENS ''line_integral'' =
     JObj [(''symbolic'', JStr ''pi''), (''numerical'', JNum 3.141593), (''error'', JNum (1 / 10 ^ 12))]"
  "get_prop DEMO_GREENS ''curl_z'' = JStr ''1''"
  by (simp_all add: DEMO_GREENS_def obj_member_def Object_prototype_def)

lemma stokes_verification:
  "get_prop DEMO_STOKES ''verification'' =
     JObj [(''line'', JNum 6.283185), (''surface'', JNum 6.283185), (''difference'', JNum (1 / 10 ^ 10))]"
  by (simp add: DEMO_STOKES_def obj_member_def)

lemma divergence_verification:
  "get_prop DEMO_DIVERGENCE ''verification'' =
     JObj [(''surface'', JNum 12.566371), (''volume'', JNum 12.566371), (''difference'', JNum 0.001)]"
  by (simp add: DEMO_DIVERGENCE_def obj_member_def)

lemma divergence_integrals:
  "get_prop DEMO_DIVERGENCE ''flux_integral'' =
     JObj [(''symbolic'', JStr ''4*pi''), (''numerical'', JNum 12.566371), (''error'', JNum 0.01)]"
  "get_prop DEMO_DIVERGENCE ''volume_integral'' =
     JObj [(''symbolic'', JStr ''4*pi''), (''numerical'', JNum 12.566371), (''error'', JNum 0.05)]"
  by (simp_all add: DEMO_DIVERGENCE_def obj_member_def)

section \<open>Bounds on \<open>pi\<close>\<close>

text \<open>
  The demo data states \<open>2 pi\<close> and \<open>4 pi\<close> to six decimals. To compare, \<open>pi\<close> is
  enclosed between \<open>3.14159262\<close> and \<open>3.14159268\<close>: \<open>sin\<close> is monotone on
  \<open>[0, pi/2]\<close> with \<open>sin (pi/6) = 1/2\<close>, and its Taylor polynomial of degree 9
  decides on which side of \<open>1/2\<close> the sine of a rational lies.
\<close>

lemma sin_taylor11:
  "\<bar>sin x - (x - x^3/6 + x^5/120 - x^7/5040 + x^9/362880)\<bar> \<le> \<bar>x\<bar>^11 / 39916800" for x :: real
proof -
  have "(\<Sum>m<11. sin_coeff m * x ^ m) = x - x^3/6 + x^5/120 - x^7/5040 + x^9/362880"
    by (simp add: eval_nat_numeral sin_coeff_Suc cos_coeff_Suc)
  then show ?thesis
    using Maclaurin_sin_bound [of x 11] by (simp add: fact_numeral inverse_eq_divide)
qed

lemma pi_lower: "3.14159262 < pi"
proof (rule ccontr)
  assume "\<not> 3.14159262 < pi"
  then have le: "pi / 6 \<le> 0.52359877" by simp
  define c :: real where "c = 0.52359877"
  define P where "P = c - c^3/6 + c^5/120 - c^7/5040 + c^9/362880"
  define R where "R = \<bar>c\<bar>^11 / 39916800"
  have "c \<le> pi / 2" using pi_ge_two by (simp add: c_def)
  then have "sin (pi / 6) \<le> sin c"
    using le by (intro sin_monotone_2pi_le) (simp_all add: c_def)
  then have "1 / 2 \<le> sin c" by (simp add: sin_30)
  moreover have "\<bar>sin c - P\<bar> \<le> R" unfolding P_def R_def by (rule sin_taylor11)
  moreover have "P + R < 1 / 2" unfolding P_def R_def c_def by (simp add: power_divide field_simps)
  ultimately show False by linarith
qed

lemma pi_upper: "pi < 3.14159268"
proof (rule ccontr)
  assume "\<not> pi < 3.14159268"
  then have le: "0.52359878 \<le> pi / 6" by simp
  define c :: real where "c = 0.52359878"
  define P where "P = c - c^3/6 + c^5/120 - c^7/5040 + c^9/362880"
  define R where "R = \<bar>c\<bar>^11 / 39916800"
  have "sin c \<le> sin (pi / 6)"
    using le by (intro sin_monotone_2pi_le) (simp_all add: c_def)
  then have "sin c \<le> 1 / 2" by (simp add: sin_30)
  moreover have "\<bar>sin c - P\<bar> \<le> R" unfolding P_def R_def by (rule sin_taylor11)
  moreover have "1 / 2 < P - R" unfolding P_def R_def c_def by (simp add: power_divide field_simps)
  ultimately show False by linarith
qed

lemma four_pi_close: "\<bar>12.566371 - 4 * pi\<bar> \<le> 1 / 10 ^ 3"
  using pi_lower pi_upper by (simp add: abs_le_iff)

lemma two_pi_close: "\<bar>6.283185 - 2 * pi\<bar> \<le> 5 / 10 ^ 7"
  using pi_lower pi_upper by (simp add: abs_le_iff)

lemma two_pi_far: "\<not> \<bar>6.283185 - 2 * pi\<bar> \<le> 1 / 10 ^ 12"
  using pi_lower by (simp add: abs_le_iff)

section \<open>Theorem verification responses\<close>

text \<open>
  Claim C1 says that for each of the theorem tags greens, stokes and divergence the
  response reports the boundary integral value, the interior integral value and their
  absolute difference. It fails on the demo responses: the response for greens has no
  \<^verbatim>\<open>verification\<close> entry at all (it carries the line integral and the integrand
  \<^verbatim>\<open>curl_z\<close>), and the \<^verbatim>\<open>difference\<close> stored for stokes and for divergence is not
  the absolute difference of the two values stored beside it, which are equal.
\<close>

theorem theorem_responses_no_cross_check:
  "getDemoResponse sample_runtime ''POST'' ''/api/theorem/greens'' JUndefined = Inr DEMO_GREENS
   \<and> get_prop DEMO_GREENS ''verification'' = JUndefined
   \<and> getDemoResponse sample_runtime ''POST'' ''/api/theorem/stokes'' JUndefined = Inr DEMO_STOKES
   \<and> \<not> reports_cross_check ''line'' ''surface'' DEMO_STOKES
   \<and> getDemoResponse sample_runtime ''POST'' ''/api/theorem/divergence'' JUndefined = Inr DEMO_DIVERGENCE
   \<and> \<not> reports_cross_check ''surface'' ''volume'' DEMO_DIVERGENCE"
  by (simp add: getDemoResponse_POST_simps greens_fields reports_cross_check_def
      stokes_verification divergence_verification obj_member_def)

text \<open>
  Claim C1, amended: for the tags stokes and divergence the response reports the
  boundary value, the interior value and a difference that bounds their absolute
  difference; for the tag greens the response reports the value of the line integral
  and no \<^verbatim>\<open>verification\<close> entry. This holds for every request body.
\<close>

theorem theorem_responses_report:
  "getDemoResponse rt ''POST'' ''/api/theorem/stokes'' body = Inr DEMO_STOKES
   \<and> reports_values_and_bound ''line'' ''surface'' DEMO_STOKES
   \<and> getDemoResponse rt ''POST'' ''/api/theorem/divergence'' body = Inr DEMO_DIVERGENCE
   \<and> reports_values_and_bound ''surface'' ''volume'' DEMO_DIVERGENCE
   \<and> getDemoResponse rt ''POST'' ''/api/theorem/greens'' body = Inr DEMO_GREENS
   \<and> is_number (get_prop (get_prop DEMO_GREENS ''line_integral'') ''numerical'')
   \<and> get_prop DEMO_GREENS ''verification'' = JUndefined"
  by (simp add: getDemoResponse_POST_simps greens_fields reports_values_and_bound_def
      stokes_verification divergence_verification obj_member_def is_number_def)

section \<open>Integral results\<close>

text \<open>
  Claim C2 says that every integral result has its numerical value, and that the
  reported error estimate is 0 whenever the result includes a symbolic closed form. The
  second half fails on the response for the one-dimensional integral: its result has
  the closed form \<^verbatim>\<open>1/3\<close> and the error \<open>3.7e-15\<close>.
\<close>

theorem symbolic_result_error_not_zero:
  "getDemoResponse sample_runtime ''POST'' ''/api/integrate/1d''
     (JObj [(''integrand'', JStr ''x^2''), (''lower_bound'', JStr ''0''), (''upper_bound'', JStr ''1'')])
     = Inr DEMO_1D
   \<and> has_symbolic (get_prop DEMO_1D ''result'')
   \<and> get_prop (get_prop DEMO_1D ''result'') ''error'' = JNum (3.7 / 10 ^ 15)
   \<and> \<not> exact_when_symbolic (get_prop DEMO_1D ''result'')"
  by (simp add: getDemoResponse_POST_simps integral_results has_symbolic_def
      exact_when_symbolic_def obj_member_def)

text \<open>
  Claim C2, amended: for each of the seven integral endpoints and every request body,
  the result of the response has its numerical value, includes a symbolic closed form,
  and reports under \<^verbatim>\<open>error\<close> a positive number.
\<close>

theorem integral_results_shape:
  assumes "path \<in> set integral_paths"
  shows "\<exists>r. getDemoResponse rt ''POST'' path body = Inr r
           \<and> is_number (get_prop (get_prop r ''result'') ''numerical'')
           \<and> has_symbolic (get_prop r ''result'')
           \<and> positive_error (get_prop r ''result'')"
  using assms unfolding integral_paths_def
  by (auto simp: getDemoResponse_POST_simps integral_results has_symbolic_def
      positive_error_def is_number_def obj_member_def)

text \<open>The amended claim C2 at the endpoint of double integrals.\<close>

theorem integral_results_shape_witness:
  "''/api/integrate/2d'' \<in> set integral_paths
   \<and> (\<exists>r. getDemoResponse sample_runtime ''POST'' ''/api/integrate/2d'' JNull = Inr r
           \<and> is_number (get_prop (get_prop r ''result'') ''numerical'')
           \<and> has_symbolic (get_prop r ''result'')
           \<and> positive_error (get_prop r ''result''))"
proof -
  have h: "''/api/integrate/2d'' \<in> set integral_paths" by (simp add: integral_paths_def)
  show ?thesis using h integral_results_shape [OF h, of sample_runtime JNull] by simp
qed

section \<open>Orientation of a flux request\<close>

text \<open>
  Claim C3 says that exchanging the u and v ranges of a flux request negates the
  computed flux. It fails on the hemisphere request: the lookup answers the request and
  the request with its ranges exchanged with the same value \<open>6.283185\<close>.
\<close>

theorem flux_swap_not_negated:
  "swap_ranges hemisphere_flux_body \<noteq> hemisphere_flux_body
   \<and> flux_numerical (getDemoResponse sample_runtime ''POST'' ''/api/integrate/flux'' hemisphere_flux_body)
       = JNum 6.283185
   \<and> \<not> negated
        (flux_numerical (getDemoResponse sample_runtime ''POST'' ''/api/integrate/flux'' hemisphere_flux_body))
        (flux_numerical (getDemoResponse sample_runtime ''POST'' ''/api/integrate/flux''
           (swap_ranges hemisphere_flux_body)))"
  by (simp add: getDemoResponse_POST_simps flux_numerical_def integral_results obj_member_def
      negated_def hemisphere_flux_body_def)

text \<open>
  Claim C3, amended: the lookup does not read the ranges. For every request body,
  exchanging the u and v ranges leaves the response unchanged, and the flux it reports
  is \<open>6.283185\<close>: the magnitude is unchanged, and so is the sign.
\<close>

theorem flux_swap_unchanged:
  "getDemoResponse rt ''POST'' ''/api/integrate/flux'' (swap_ranges body)
     = getDemoResponse rt ''POST'' ''/api/integrate/flux'' body
   \<and> flux_numerical (getDemoResponse rt ''POST'' ''/api/integrate/flux'' body) = JNum 6.283185"
  by (simp add: getDemoResponse_POST_simps flux_numerical_def integral_results obj_member_def)

section \<open>Parsing\<close>

text \<open>
  Claim C4 says that an expression with an undeclared identifier or a token outside the
  allow-list yields a ParseError and never a success result with a default value. It
  fails on the expression \<^verbatim>\<open>foo + $\<close>: the lookup answers with the fixed success
  response, whose parsed expression is \<^verbatim>\<open>x**2\<close>.
\<close>

theorem demo_parse_accepts_undeclared:
  "getDemoResponse sample_runtime ''POST'' ''/api/parse'' (JObj [(''expression'', JStr ''foo + $'')])
     = Inr DEMO_PARSE
   \<and> get_prop DEMO_PARSE ''success'' = JBool True
   \<and> get_prop DEMO_PARSE ''parsed'' = JStr ''x**2''"
  by (simp add: getDemoResponse_POST_simps DEMO_PARSE_def obj_member_def)

text \<open>
  Claim C4, amended: for every request body, whatever expression it carries, the parse
  lookup throws nothing and returns the same success response, with the parsed
  expression \<^verbatim>\<open>x**2\<close>; so does \<^verbatim>\<open>demoApiRequest\<close>.
\<close>

theorem demo_parse_fixed_response:
  "getDemoResponse rt ''POST'' ''/api/parse'' body = Inr DEMO_PARSE
   \<and> demoApiRequest rt ''/parse'' body = Inr DEMO_PARSE
   \<and> get_prop DEMO_PARSE ''success'' = JBool True
   \<and> get_prop DEMO_PARSE ''parsed'' = JStr ''x**2''"
  by (simp add: getDemoResponse_POST_simps demoApiRequest_def DEMO_PARSE_def obj_member_def)

section \<open>The divergence theorem on the unit sphere\<close>

text \<open>
  Claim C5: the divergence-theorem verification reports a flux integral and a volume
  integral that both equal \<open>4 pi\<close> to within \<open>1e-3\<close>, and a difference of at most
  \<open>1e-3\<close>. This holds for every request body, hence for the field \<open>(x, y, z)\<close> on
  the unit sphere.
\<close>

theorem divergence_theorem_4pi:
  "getDemoResponse rt ''POST'' ''/api/theorem/divergence'' body = Inr DEMO_DIVERGENCE
   \<and> num_within (4 * pi) (1 / 10 ^ 3) (get_prop (get_prop DEMO_DIVERGENCE ''flux_integral'') ''numerical'')
   \<and> num_within (4 * pi) (1 / 10 ^ 3) (get_prop (get_prop DEMO_DIVERGENCE ''volume_integral'') ''numerical'')
   \<and> num_within (4 * pi) (1 / 10 ^ 3) (get_prop (get_prop DEMO_DIVERGENCE ''verification'') ''surface'')
   \<and> num_within (4 * pi) (1 / 10 ^ 3) (get_prop (get_prop DEMO_DIVERGENCE ''verification'') ''volume'')
   \<and> difference_at_most (1 / 10 ^ 3) (get_prop (get_prop DEMO_DIVERGENCE ''verification'') ''difference'')"
  using four_pi_close
  by (simp add: getDemoResponse_POST_simps divergence_integrals divergence_verification
      obj_member_def num_within_def difference_at_most_def)

section \<open>Arc length of the unit circle\<close>

text \<open>
  Claim C6 says that the scalar line integral of 1 over the unit circle is reported
  with a numerical value that equals \<open>2 pi\<close> to within the error estimate of the same
  response. It fails: the value is \<open>6.283185\<close>, the error estimate is \<open>1e-12\<close>, and
  \<open>2 pi\<close> exceeds \<open>6.283185\<close> by more than \<open>2e-7\<close>.
\<close>

theorem arc_length_not_within_reported_error:
  "getDemoResponse sample_runtime ''POST'' ''/api/integrate/line/scalar'' unit_circle_body
     = Inr DEMO_LINE_SCALAR
   \<and> get_prop (get_prop DEMO_LINE_SCALAR ''result'') ''numerical'' = JNum 6.283185
   \<and> get_prop (get_prop DEMO_LINE_SCALAR ''result'') ''error'' = JNum (1 / 10 ^ 12)
   \<and> \<not> within_reported_error (2 * pi) (get_prop DEMO_LINE_SCALAR ''result'')"
  using two_pi_far
  by (simp add: getDemoResponse_POST_simps integral_results obj_member_def within_reported_error_def)

text \<open>
  Claim C6, amended: for every request body the scalar line integral response reports a
  numerical value that equals \<open>2 pi\<close> to within \<open>5e-7\<close> (it is \<open>2 pi\<close> rounded to
  six decimals), beside the error estimate \<open>1e-12\<close>.
\<close>

theorem arc_length_within_rounding:
  "getDemoResponse rt ''POST'' ''/api/integrate/line/scalar'' body = Inr DEMO_LINE_SCALAR
   \<and> num_within (2 * pi) (5 / 10 ^ 7) (get_prop (get_prop DEMO_LINE_SCALAR ''result'') ''numerical'')
   \<and> get_prop (get_prop DEMO_LINE_SCALAR ''result'') ''error'' = JNum (1 / 10 ^ 12)"
  using two_pi_close
  by (simp add: getDemoResponse_POST_simps integral_results obj_member_def num_within_def)

section \<open>Failed computations never resolve\<close>

lemma vector_ops_success:
  "get_prop (js_or (get_prop DEMO_VECTOR_OPS k) (get_prop DEMO_VECTOR_OPS ''gradient'')) ''success''
     \<noteq> JBool False"
  by (simp add: DEMO_VECTOR_OPS_def obj_member_def Object_prototype_def js_or_def)

lemma demo_lookup_success:
  assumes "getDemoResponse rt ''POST'' path body = Inr data"
  shows "get_prop data ''success'' \<noteq> JBool False"
  using assms unfolding getDemoResponse_def
  by (auto simp: success_fields vector_ops_success Let_def split: if_splits sum.splits)

lemma real_resolves:
  assumes "realApiRequest env endpoint body = Inr data"
  shows "truthy (get_prop data ''success'') \<and> exchange env (API_BASE @ endpoint) body = Inr data"
  using assms unfolding realApiRequest_def read_prop_def
  by (auto split: sum.splits if_splits)

lemma throw_new_Error_string: "throw_new_Error rt (JStr s) = JsError ''Error'' s"
  by (simp add: throw_new_Error_def)

text \<open>
  Claim C7: for every endpoint and request body, \<^verbatim>\<open>apiRequest\<close> never resolves with a
  response whose \<^verbatim>\<open>success\<close> field is \<^verbatim>\<open>false\<close>; when the decoded server response
  has \<^verbatim>\<open>success\<close> \<^verbatim>\<open>false\<close>, it throws an error that carries the error message of
  the response, or \<^verbatim>\<open>Computation failed\<close> when the response has none.
\<close>

theorem apiRequest_no_failed_response:
  "(apiRequest env endpoint body = Inr data \<longrightarrow> get_prop data ''success'' \<noteq> JBool False)
   \<and> (\<not> isDemo env \<and> exchange env (API_BASE @ endpoint) body = Inr d
        \<and> get_prop d ''success'' = JBool False \<longrightarrow>
        apiRequest env endpoint body
          = Inl (throw_new_Error (runtime env) (js_or (get_prop d ''error'') (JStr ''Computation failed'')))
        \<and> (\<forall>msg. get_prop d ''error'' = JStr msg \<and> msg \<noteq> [] \<longrightarrow>
               apiRequest env endpoint body = Inl (JsError ''Error'' msg))
        \<and> (\<not> truthy (get_prop d ''error'') \<longrightarrow>
               apiRequest env endpoint body = Inl (JsError ''Error'' ''Computation failed'')))"
proof (intro conjI impI allI)
  assume "apiRequest env endpoint body = Inr data"
  then show "get_prop data ''success'' \<noteq> JBool False"
    using demo_lookup_success [of "runtime env" "''/api'' @ endpoint" body data]
      real_resolves [of env endpoint body data]
    by (auto simp: apiRequest_def demoApiRequest_def split: if_splits sum.splits)
next
  assume h: "\<not> isDemo env \<and> exchange env (API_BASE @ endpoint) body = Inr d
        \<and> get_prop d ''success'' = JBool False"
  then have obj: "d \<noteq> JUndefined" "d \<noteq> JNull" by auto
  show main: "apiRequest env endpoint body
          = Inl (throw_new_Error (runtime env) (js_or (get_prop d ''error'') (JStr ''Computation failed'')))"
    using h obj by (simp add: apiRequest_def realApiRequest_def read_prop_def)
  { fix msg assume "get_prop d ''error'' = JStr msg \<and> msg \<noteq> []"
    then show "apiRequest env endpoint body = Inl (JsError ''Error'' msg)"
      using main by (simp add: js_or_def throw_new_Error_string) }
  { assume "\<not> truthy (get_prop d ''error'')"
    then show "apiRequest env endpoint body = Inl (JsError ''Error'' ''Computation failed'')"
      using main by (simp add: js_or_def throw_new_Error_string) }
qed

text \<open>
  Claim C7 at concrete inputs: a parse request resolves in demo mode, and the same
  request is rejected with the message of the server when the server reports a failure.
\<close>

theorem apiRequest_no_failed_response_witness:
  "apiRequest demo_env ''/parse'' JNull = Inr DEMO_PARSE
   \<and> get_prop DEMO_PARSE ''success'' \<noteq> JBool False
   \<and> \<not> isDemo server_env
   \<and> exchange server_env (API_BASE @ ''/parse'') JNull = Inr failed_response
   \<and> get_prop failed_response ''success'' = JBool False
   \<and> get_prop failed_response ''error'' = JStr ''Could not parse expression''
   \<and> apiRequest server_env ''/parse'' JNull = Inl (JsError ''Error'' ''Could not parse expression'')"
proof -
  have a: "apiRequest demo_env ''/parse'' JNull = Inr DEMO_PARSE"
    by (simp add: apiRequest_def demo_env_def demoApiRequest_def getDemoResponse_POST_simps DEMO_PARSE_def)
  have b: "\<not> isDemo server_env \<and> exchange server_env (API_BASE @ ''/parse'') JNull = Inr failed_response
        \<and> get_prop failed_response ''success'' = JBool False"
    by (simp add: server_env_def failing_exchange_def failed_response_def obj_member_def)
  have c: "get_prop failed_response ''error'' = JStr ''Could not parse expression''"
    by (simp add: failed_response_def obj_member_def)
  show ?thesis
    using a b c
      apiRequest_no_failed_response [of demo_env "''/parse''" JNull DEMO_PARSE failed_response]
      apiRequest_no_failed_response [of server_env "''/parse''" JNull DEMO_PARSE failed_response]
    by (simp add: js_or_def throw_new_Error_string)
qed

section \<open>Vector operations with an unknown tag\<close>

text \<open>
  Claim C10 says that a request to \<^verbatim>\<open>/api/vector/operations\<close> whose operation tag is
  none of gradient, divergence and curl gets the gradient response. The code falls back
  with \<^verbatim>\<open>DEMO_VECTOR_OPS[op] || DEMO_VECTOR_OPS.gradient\<close>, and the lookup
  \<^verbatim>\<open>DEMO_VECTOR_OPS[op]\<close> also finds what the object inherits: for the tag
  \<^verbatim>\<open>toString\<close> the code returns the function \<^verbatim>\<open>Object.prototype.toString\<close>, which
  is not the gradient response.
\<close>

theorem vector_ops_inherited_member:
  "getDemoResponse rt ''POST'' ''/api/vector/operations'' (JObj [(''operation'', JStr ''toString'')])
     = Inr (JBuiltin ''Object.prototype.toString'')
   \<and> demoApiRequest rt ''/vector/operations'' (JObj [(''operation'', JStr ''toString'')])
     = Inr (JBuiltin ''Object.prototype.toString'')
   \<and> JBuiltin ''Object.prototype.toString'' \<noteq> get_prop DEMO_VECTOR_OPS ''gradient''"
  by (simp add: getDemoResponse_def demoApiRequest_def opt_prop_def js_or_def obj_member_def
      DEMO_VECTOR_OPS_def Object_prototype_def)

text \<open>
  The fallback works for the tags that are neither an own key of
  \<^verbatim>\<open>DEMO_VECTOR_OPS\<close> nor the name of a member of \<^verbatim>\<open>Object.prototype\<close>, and
  for a body without an operation.
\<close>

lemma vector_ops_fallback:
  assumes "opt_prop body ''operation'' = JStr k"
    and "k \<notin> set [''gradient'', ''divergence'', ''curl'']" and "k \<notin> fst ` set Object_prototype"
  shows "getDemoResponse rt ''POST'' ''/api/vector/operations'' body
     = Inr (get_prop DEMO_VECTOR_OPS ''gradient'')"
  using assms
  by (simp add: getDemoResponse_def js_or_def obj_member_def
      DEMO_VECTOR_OPS_def Object_prototype_def)

lemma vector_ops_no_operation:
  assumes "\<not> truthy (opt_prop body ''operation'')"
  shows "getDemoResponse rt ''POST'' ''/api/vector/operations'' body
     = Inr (get_prop DEMO_VECTOR_OPS ''gradient'')"
  using assms
  by (simp add: getDemoResponse_def js_or_def obj_member_def DEMO_VECTOR_OPS_def)

section \<open>The state that \<^verbatim>\<open>compute\<close> leaves\<close>

lemma truthy_not_nullish: "truthy v \<Longrightarrow> v \<noteq> JUndefined \<and> v \<noteq> JNull"
  by (cases v) simp_all

lemma get_prop_truthy_imp_truthy: "truthy (get_prop v k) \<Longrightarrow> truthy v"
  by (cases v) simp_all

lemma apiRequest_resolves_truthy:
  assumes "apiRequest env endpoint body = Inr data"
  shows "truthy data"
proof (cases "isDemo env")
  case True
  with assms show ?thesis
    by (auto simp: apiRequest_def demoApiRequest_def split: sum.splits if_splits)
next
  case False
  with assms have "truthy (get_prop data ''success'')"
    using real_resolves [of env endpoint body data] by (simp add: apiRequest_def)
  then show ?thesis by (rule get_prop_truthy_imp_truthy)
qed

lemma read_prop_truthy: "truthy v \<Longrightarrow> read_prop v k = Inr (get_prop v k)"
  using truthy_not_nullish [of v] by (simp add: read_prop_def)

lemma js_or_truthy: "truthy w \<Longrightarrow> truthy (js_or v w)"
  by (simp add: js_or_def)

lemma set_state_plain: "\<not> is_function v \<Longrightarrow> set_state rt prev v = Inr v"
  by (cases v) (simp_all add: set_state_def)

lemma try_block_failure:
  assumes "request env t fs = Inl err"
  shows "try_block env t fs st = Inr (st, Some err)"
  using assms apiRequest_resolves_truthy
  by (auto simp: request_def try_block_def bind_result_def read_prop_truthy split: sum.splits prod.splits)

lemma try_block_success:
  assumes "request env t fs = Inr data"
  shows "try_block env t fs st =
     (case set_state (runtime env) (result st) (js_or (get_prop data ''result'') data) of
        Inl e \<Rightarrow> Inl e
      | Inr r \<Rightarrow>
          (case set_state (runtime env) (visualization st) (js_or (get_prop data ''visualization'') data) of
             Inl e \<Rightarrow> Inl e
           | Inr v \<Rightarrow> Inr (st\<lparr>result := r, visualization := v\<rparr>, None)))"
    and "truthy data"
proof -
  obtain endpoint body where cfg: "getComputeConfig t fs = Inr (endpoint, body)"
    and api: "apiRequest env endpoint body = Inr data"
    using assms by (auto simp: request_def bind_result_def split: sum.splits prod.splits)
  show t: "truthy data" using api by (rule apiRequest_resolves_truthy)
  show "try_block env t fs st =
     (case set_state (runtime env) (result st) (js_or (get_prop data ''result'') data) of
        Inl e \<Rightarrow> Inl e
      | Inr r \<Rightarrow>
          (case set_state (runtime env) (visualization st) (js_or (get_prop data ''visualization'') data) of
             Inl e \<Rightarrow> Inl e
           | Inr v \<Rightarrow> Inr (st\<lparr>result := r, visualization := v\<rparr>, None)))"
    using cfg api t by (simp add: try_block_def read_prop_truthy Let_def split: sum.splits)
qed

text \<open>
  When the configuration or the request throws, the hook settles with \<^verbatim>\<open>loading\<close>
  \<^verbatim>\<open>false\<close>, \<^verbatim>\<open>result\<close> and \<^verbatim>\<open>visualization\<close> \<^verbatim>\<open>null\<close> and the message of the
  error in \<^verbatim>\<open>error\<close>. When the request resolves with a response that the setters
  store as it is, the hook settles with \<^verbatim>\<open>loading\<close> \<^verbatim>\<open>false\<close>, \<^verbatim>\<open>error\<close>
  \<^verbatim>\<open>null\<close> and a \<^verbatim>\<open>result\<close> that is not \<^verbatim>\<open>null\<close>.
\<close>

lemma compute_failure:
  assumes "request env t fs = Inl err"
  shows "compute env t fs st =
     Inr \<lparr>result = JNull, visualization = JNull, loading = False, error = JStr (err_message err)\<rparr>"
  using assms by (simp add: compute_def try_block_failure)

lemma compute_success_plain:
  assumes "request env t fs = Inr data"
    and "\<not> is_function (js_or (get_prop data ''result'') data)"
    and "\<not> is_function (js_or (get_prop data ''visualization'') data)"
  shows "compute env t fs st =
     Inr \<lparr>result = js_or (get_prop data ''result'') data,
          visualization = js_or (get_prop data ''visualization'') data,
          loading = False, error = JNull\<rparr>"
    and "js_or (get_prop data ''result'') data \<noteq> JNull"
proof -
  show "compute env t fs st =
     Inr \<lparr>result = js_or (get_prop data ''result'') data,
          visualization = js_or (get_prop data ''visualization'') data,
          loading = False, error = JNull\<rparr>"
    using assms(2,3) by (simp add: compute_def try_block_success(1) [OF assms(1)] set_state_plain)
  have "truthy (js_or (get_prop data ''result'') data)"
    using try_block_success(2) [OF assms(1)] by (rule js_or_truthy)
  then show "js_or (get_prop data ''result'') data \<noteq> JNull"
    using truthy_not_nullish by blast
qed

lemma config_vector_op:
  "getComputeConfig ''vector_operations'' (vector_op_form tag) =
     Inr (''/vector/operations'',
          if tag = ''gradient''
          then JObj [(''operation'', JStr tag), (''scalar_field'', JStr ''x^2 + y^2 + z^2'')]
          else JObj [(''operation'', JStr tag),
                     (''vector_field'', JObj [(''x'', JStr ''-y''), (''y'', JStr ''x''), (''z'', JStr ''0'')])])"
  by (simp add: getComputeConfig_def vector_op_form_def App_initial_form_def obj_member_def Let_def)

lemma request_inherited:
  "request demo_env ''vector_operations'' (vector_op_form ''valueOf'')
     = Inr (JBuiltin ''Object.prototype.valueOf'')"
  "request demo_env ''vector_operations'' (vector_op_form ''toString'')
     = Inr (JBuiltin ''Object.prototype.toString'')"
  by (simp_all add: request_def config_vector_op bind_result_def apiRequest_def demo_env_def
      demoApiRequest_def getDemoResponse_def opt_prop_def js_or_def obj_member_def
      DEMO_VECTOR_OPS_def Object_prototype_def)

text \<open>
  Claim C9 says that once \<^verbatim>\<open>compute(integralType, formState)\<close> has settled,
  \<^verbatim>\<open>loading\<close> is \<^verbatim>\<open>false\<close> and at most one of \<^verbatim>\<open>error\<close> and \<^verbatim>\<open>result\<close> is not
  \<^verbatim>\<open>null\<close>: after a thrown failure \<^verbatim>\<open>result\<close> and \<^verbatim>\<open>visualization\<close> are
  \<^verbatim>\<open>null\<close> and \<^verbatim>\<open>error\<close> holds the message, after a success \<^verbatim>\<open>error\<close> is
  \<^verbatim>\<open>null\<close>. The code misses this in demo mode for an operation tag that names a
  member of \<^verbatim>\<open>Object.prototype\<close>: the request resolves with the inherited function,
  and \<^verbatim>\<open>setResult\<close> takes a function for an updater. For the tag \<^verbatim>\<open>valueOf\<close> the
  updater throws, the render throws with it, and the hook never has a state with
  \<^verbatim>\<open>loading\<close> \<^verbatim>\<open>false\<close>. (For the tag \<^verbatim>\<open>toString\<close> the hook does settle, with the
  string \<^verbatim>\<open>[object Undefined]\<close> in \<^verbatim>\<open>result\<close> and in \<^verbatim>\<open>visualization\<close>.)
\<close>

theorem compute_inherited_member_as_updater:
  "request demo_env ''vector_operations'' (vector_op_form ''valueOf'')
     = Inr (JBuiltin ''Object.prototype.valueOf'')
   \<and> compute demo_env ''vector_operations'' (vector_op_form ''valueOf'') initial_state
     = Inl to_object_error
   \<and> request demo_env ''vector_operations'' (vector_op_form ''toString'')
     = Inr (JBuiltin ''Object.prototype.toString'')
   \<and> compute demo_env ''vector_operations'' (vector_op_form ''toString'') initial_state
     = Inr \<lparr>result = JStr ''[object Undefined]'', visualization = JStr ''[object Undefined]'',
            loading = False, error = JNull\<rparr>"
  by (simp add: request_inherited compute_def try_block_success(1) [OF request_inherited(1)]
      try_block_success(1) [OF request_inherited(2)] js_or_def set_state_def call_builtin_def
      callable_builtins_def initial_state_def)

section \<open>Repeated invocations of the demo lookup\<close>









end
